theory Spec2Isabelle
  imports Complex_Main
begin

section \<open>Python values\<close>

text \<open>
  The values that reach the formatter: attribute values of a log event, the message and
  its payload. Dictionary keys are strings or integers (the source allows numeric
  attribute names). A string is a list of code points below 256.
  Objects the JSON encoder has no native form for are kept by what the source reads of
  them: a date or time by its \<^verbatim>\<open>isoformat()\<close>, a traceback by the joined text of
  \<^verbatim>\<open>traceback.format_tb\<close>, an exception and any other object by a name.
  Floats are left out of the universe.
\<close>

datatype pykey = KStr string | KInt int

datatype pyval =
    PyNone
  | PyBool bool
  | PyInt int
  | PyStr string
  | PyList "pyval list"
  | PyTuple "pyval list"
  | PyDict "(pykey \<times> pyval) list"
  | PyDateTime string
  | PyTraceback string
  | PyException string
  | PyObject string

type_synonym pydict = "(pykey \<times> pyval) list"

datatype errno = EEXIST | EACCES | ENOENT | ENOSPC | EROFS | EISDIR

datatype pyerror =
    TypeError
  | AttributeError string
  | OSError errno
  | OverflowError
  | ValueError

text \<open>Truth value testing, as \<^verbatim>\<open>if x\<close> and \<^verbatim>\<open>not x\<close> do it.\<close>

fun truthy :: "pyval \<Rightarrow> bool" where
  "truthy PyNone = False"
| "truthy (PyBool b) = b"
| "truthy (PyInt i) = (i \<noteq> 0)"
| "truthy (PyStr s) = (s \<noteq> [])"
| "truthy (PyList xs) = (xs \<noteq> [])"
| "truthy (PyTuple xs) = (xs \<noteq> [])"
| "truthy (PyDict d) = (d \<noteq> [])"
| "truthy (PyDateTime _) = True"
| "truthy (PyTraceback _) = True"
| "truthy (PyException _) = True"
| "truthy (PyObject _) = True"

text \<open>\<^verbatim>\<open>isinstance(x, dict)\<close>, with the mapping when it holds.\<close>

fun isinstance_dict :: "pyval \<Rightarrow> pydict option" where
  "isinstance_dict (PyDict d) = Some d"
| "isinstance_dict _ = None"

subsection \<open>Insertion-ordered dictionaries\<close>

text \<open>
  A \<^verbatim>\<open>dict\<close> (or \<^verbatim>\<open>OrderedDict\<close>) is an association list in insertion order.
  Assigning to a key that is present replaces the value and keeps the position;
  a new key goes to the end.
\<close>

fun dict_set :: "('k \<times> 'v) list \<Rightarrow> 'k \<Rightarrow> 'v \<Rightarrow> ('k \<times> 'v) list" where
  "dict_set [] k v = [(k, v)]"
| "dict_set ((k', v') # d) k v =
     (if k' = k then (k', v) # d else (k', v') # dict_set d k v)"

definition dict_get :: "pydict \<Rightarrow> pykey \<Rightarrow> pyval" where
  "dict_get d k = (case map_of d k of None \<Rightarrow> PyNone | Some v \<Rightarrow> v)"

definition dict_update :: "('k \<times> 'v) list \<Rightarrow> ('k \<times> 'v) list \<Rightarrow> ('k \<times> 'v) list" where
  "dict_update d other = fold (\<lambda>kv acc. dict_set acc (fst kv) (snd kv)) other d"

definition dict_contains :: "('k \<times> 'v) list \<Rightarrow> 'k \<Rightarrow> bool" where
  "dict_contains d k = (k \<in> set (map fst d))"

definition dict_of_pairs :: "('k \<times> 'v) list \<Rightarrow> ('k \<times> 'v) list" where
  "dict_of_pairs ps = dict_update [] ps"

subsection \<open>Strings\<close>

definition newline :: char where
  "newline = CHR 0x0A"

definition is_space :: "char \<Rightarrow> bool" where
  "is_space c = (c \<in> set [CHR 0x20, CHR 0x09, CHR 0x0A, CHR 0x0B, CHR 0x0C, CHR 0x0D,
                           CHR 0x1C, CHR 0x1D, CHR 0x1E, CHR 0x1F, CHR 0x85, CHR 0xA0])"

definition strip :: "string \<Rightarrow> string" where
  "strip s = rev (dropWhile is_space (rev (dropWhile is_space s)))"

definition digit_char :: "nat \<Rightarrow> char" where
  "digit_char n = ''0123456789abcdef'' ! n"

fun nat_digits :: "nat \<Rightarrow> string" where
  "nat_digits n =
     (if n < 10 then [digit_char n] else nat_digits (n div 10) @ [digit_char (n mod 10)])"

declare nat_digits.simps [simp del]

definition str_int :: "int \<Rightarrow> string" where
  "str_int i = (if i < 0 then CHR ''-'' # nat_digits (nat (- i)) else nat_digits (nat i))"

fun join :: "string \<Rightarrow> string list \<Rightarrow> string" where
  "join sep [] = []"
| "join sep [x] = x"
| "join sep (x # y # ys) = x @ sep @ join sep (y # ys)"

fun startswith :: "string \<Rightarrow> string \<Rightarrow> bool" where
  "startswith s [] = True"
| "startswith [] (p # ps) = False"
| "startswith (c # cs) (p # ps) = (c = p \<and> startswith cs ps)"

section \<open>The standard JSON encoder\<close>

text \<open>
  \<^verbatim>\<open>json.dumps(obj)\<close> with every option at its default: separators
  \<^verbatim>\<open>", "\<close> and \<^verbatim>\<open>": "\<close>, no indentation, ASCII output, keys in the order of
  the dictionary, and no \<^verbatim>\<open>default\<close> hook, so that an object with no native
  form raises \<^verbatim>\<open>TypeError\<close>.
\<close>

definition json_escape_char :: "char \<Rightarrow> string" where
  "json_escape_char c =
     (if c = CHR 0x22 then [CHR 0x5C, CHR 0x22]
      else if c = CHR 0x5C then [CHR 0x5C, CHR 0x5C]
      else if c = CHR 0x0A then [CHR 0x5C, CHR ''n'']
      else if c = CHR 0x0D then [CHR 0x5C, CHR ''r'']
      else if c = CHR 0x09 then [CHR 0x5C, CHR ''t'']
      else if c = CHR 0x08 then [CHR 0x5C, CHR ''b'']
      else if c = CHR 0x0C then [CHR 0x5C, CHR ''f'']
      else if (0x20::nat) \<le> of_char c \<and> of_char c \<le> (0x7E::nat) then [c]
      else [CHR 0x5C, CHR ''u'', CHR ''0'', CHR ''0'',
            digit_char (of_char c div 16), digit_char (of_char c mod 16)])"

definition encode_basestring_ascii :: "string \<Rightarrow> string" where
  "encode_basestring_ascii s = [CHR 0x22] @ concat (map json_escape_char s) @ [CHR 0x22]"

fun sequence_sum :: "('e + 'a) list \<Rightarrow> 'e + 'a list" where
  "sequence_sum [] = Inr []"
| "sequence_sum (Inl e # xs) = Inl e"
| "sequence_sum (Inr x # xs) =
     (case sequence_sum xs of Inl e \<Rightarrow> Inl e | Inr ys \<Rightarrow> Inr (x # ys))"

definition json_key :: "pykey \<Rightarrow> string" where
  "json_key k = (case k of KStr s \<Rightarrow> encode_basestring_ascii s
                         | KInt i \<Rightarrow> encode_basestring_ascii (str_int i))"

definition json_array :: "(pyerror + string) list \<Rightarrow> pyerror + string" where
  "json_array items =
     (case sequence_sum items of
        Inl e \<Rightarrow> Inl e
      | Inr ss \<Rightarrow> Inr (''['' @ join '', '' ss @ '']''))"

definition json_object :: "(pykey \<times> (pyerror + string)) list \<Rightarrow> pyerror + string" where
  "json_object items =
     (case sequence_sum (map snd items) of
        Inl e \<Rightarrow> Inl e
      | Inr ss \<Rightarrow>
          Inr (''{'' @ join '', '' (map (\<lambda>(k, s). json_key k @ '': '' @ s)
                                      (zip (map fst items) ss)) @ ''}''))"

primrec json_dumps :: "pyval \<Rightarrow> pyerror + string" where
  "json_dumps PyNone = Inr ''null''"
| "json_dumps (PyBool b) = Inr (if b then ''true'' else ''false'')"
| "json_dumps (PyInt i) = Inr (str_int i)"
| "json_dumps (PyStr s) = Inr (encode_basestring_ascii s)"
| "json_dumps (PyList xs) = json_array (map json_dumps xs)"
| "json_dumps (PyTuple xs) = json_array (map json_dumps xs)"
| "json_dumps (PyDict d) = json_object (map (map_prod id json_dumps) d)"
| "json_dumps (PyDateTime s) = Inl TypeError"
| "json_dumps (PyTraceback tb) = Inl TypeError"
| "json_dumps (PyException m) = Inl TypeError"
| "json_dumps (PyObject n) = Inl TypeError"


section \<open>The host logging framework\<close>

text \<open>
  A log event (\<^verbatim>\<open>logging.LogRecord\<close>) is its attribute dictionary
  \<^verbatim>\<open>record.__dict__\<close>: reading an attribute looks its name up, assigning one
  sets the entry. The methods the formatter inherits or calls on the event belong to
  the framework and to the builtins, and are parameters of the model:
  \<^verbatim>\<open>record.getMessage()\<close>, \<^verbatim>\<open>Formatter.formatTime(record, datefmt)\<close>,
  \<^verbatim>\<open>Formatter.formatException(exc_info)\<close> and \<^verbatim>\<open>str(obj)\<close>.
  \<^verbatim>\<open>logging.Formatter.__init__\<close> is modelled with the formatter, for the default
  style: it does not accept a keyword it does not know, it validates the pattern unless
  \<^verbatim>\<open>validate=False\<close> is given, and it keeps the pattern as \<^verbatim>\<open>self._fmt\<close>
  (\<^verbatim>\<open>%(message)s\<close> when none is given).
\<close>

type_synonym logrecord = pydict

record framework =
  getMessage :: "logrecord \<Rightarrow> pyerror + string"
  formatTime :: "logrecord \<Rightarrow> string option \<Rightarrow> string"
  formatException :: "pyval \<Rightarrow> string"
  builtin_str :: "pyval \<Rightarrow> string"

definition getattr :: "logrecord \<Rightarrow> string \<Rightarrow> pyerror + pyval" where
  "getattr r name =
     (case map_of r (KStr name) of None \<Rightarrow> Inl (AttributeError name) | Some v \<Rightarrow> Inr v)"

definition setattr :: "logrecord \<Rightarrow> string \<Rightarrow> pyval \<Rightarrow> logrecord" where
  "setattr r name v = dict_set r (KStr name) v"

section \<open>The JSON formatter\<close>

definition RESERVED_ATTRS :: "string list" where
  "RESERVED_ATTRS =
     [''args'', ''asctime'', ''created'', ''exc_info'', ''exc_text'', ''filename'',
      ''funcName'', ''levelname'', ''levelno'', ''lineno'', ''module'',
      ''msecs'', ''message'', ''msg'', ''name'', ''pathname'', ''process'',
      ''processName'', ''relativeCreated'', ''stack_info'', ''thread'', ''threadName'']"

definition RESERVED_ATTR_HASH :: "(string \<times> string) list" where
  "RESERVED_ATTR_HASH = dict_of_pairs (zip RESERVED_ATTRS RESERVED_ATTRS)"

text \<open>\<^verbatim>\<open>key in reserved\<close> for a dictionary with string keys.\<close>

definition key_in :: "pykey \<Rightarrow> (string \<times> 'v) list \<Rightarrow> bool" where
  "key_in key d = (case key of KStr s \<Rightarrow> dict_contains d s | KInt i \<Rightarrow> False)"

definition hasattr_startswith :: "pykey \<Rightarrow> bool" where
  "hasattr_startswith key = (case key of KStr s \<Rightarrow> True | KInt i \<Rightarrow> False)"

definition key_startswith :: "pykey \<Rightarrow> string \<Rightarrow> bool" where
  "key_startswith key p = (case key of KStr s \<Rightarrow> startswith s p | KInt i \<Rightarrow> False)"

definition merge_record_extra :: "logrecord \<Rightarrow> pydict \<Rightarrow> (string \<times> string) list \<Rightarrow> pydict" where
  "merge_record_extra r target reserved =
     fold (\<lambda>item tgt.
             if \<not> key_in (fst item) reserved
                \<and> \<not> (hasattr_startswith (fst item) \<and> key_startswith (fst item) ''_'')
             then dict_set tgt (fst item) (snd item)
             else tgt)
          r target"

datatype encoder_cls = EncoderCls string

record json_formatter =
  fmt :: string
  datefmt :: "string option"
  json_default :: "(pyval \<Rightarrow> pyval) option"
  json_encoder :: "encoder_cls option"
  json_serializer :: "pyval \<Rightarrow> pyerror + string"
  prefix :: string
  required_fields :: "string list"
  skip_fields :: "(string \<times> string) list"

text \<open>The keyword arguments of the constructor; the pattern and the date format may
  also come by position.\<close>

record formatter_kwargs =
  kw_fmt :: "string option"
  kw_datefmt :: "string option"
  kw_json_default :: "(pyval \<Rightarrow> pyval) option"
  kw_json_encoder :: "encoder_cls option"
  kw_json_serializer :: "(pyval \<Rightarrow> pyerror + string) option"
  kw_prefix :: "string option"
  kw_validate :: "bool option"

definition default_json_handler :: "framework \<Rightarrow> pyval \<Rightarrow> pyval" where
  "default_json_handler fw obj =
     (case obj of
        PyDateTime isofmt \<Rightarrow> PyStr isofmt
      | PyTraceback tb \<Rightarrow> PyStr (strip tb)
      | PyException m \<Rightarrow> PyStr (''Exception: '' @ builtin_str fw obj)
      | _ \<Rightarrow> PyStr (builtin_str fw obj))"

subsection \<open>The pattern scanner\<close>

text \<open>
  \<^verbatim>\<open>re.compile(r'\((.+?)\)', re.IGNORECASE).findall(s)\<close>. A match starts at an
  opening parenthesis; the group takes one character that is not a line break, then as
  few more as possible (none of them a line break) until a closing parenthesis follows.
  \<open>match_group\<close> reads the text after the opening parenthesis and gives the group; the
  scan goes on after the closing parenthesis of a match, and at the next character when
  the attempt fails.
\<close>

fun match_group :: "string \<Rightarrow> string option" where
  "match_group [] = None"
| "match_group (c # cs) =
     (if c = newline then None
      else (case cs of
              [] \<Rightarrow> None
            | d # ds \<Rightarrow> if d = CHR '')'' then Some [c]
                       else map_option ((#) c) (match_group cs)))"

fun findall :: "string \<Rightarrow> string list" where
  "findall [] = []"
| "findall (c # cs) =
     (if c = CHR ''(''
      then (case match_group cs of
              Some g \<Rightarrow> g # findall (drop (Suc (length g)) cs)
            | None \<Rightarrow> findall cs)
      else findall cs)"

definition parse :: "json_formatter \<Rightarrow> string list" where
  "parse self = findall (fmt self)"

subsection \<open>The constructor\<close>

text \<open>
  The validation of the framework, for the style of the percent sign: the pattern is
  valid when \<^verbatim>\<open>%\(\w+\)[#0+ -]*(\*|\d+)?(\.(\*|\d+))?[diouxefgcrsa%]\<close> is found in
  it, whatever the case of the letters. \<open>validation_match\<close> reads the text at one
  position. A field name is a run of word characters, closed by a parenthesis; flags,
  a width and a precision may follow, and a conversion character must. Each run is
  taken as long as it goes, since no character that ends a run can continue it.
\<close>

definition is_word_char :: "char \<Rightarrow> bool" where
  "is_word_char c =
     (let n = (of_char c :: nat)
      in (0x30 \<le> n \<and> n \<le> 0x39) \<or> (0x41 \<le> n \<and> n \<le> 0x5A) \<or> n = 0x5F
         \<or> (0x61 \<le> n \<and> n \<le> 0x7A)
         \<or> n \<in> set [0xAA, 0xB2, 0xB3, 0xB5, 0xB9, 0xBA, 0xBC, 0xBD, 0xBE]
         \<or> (0xC0 \<le> n \<and> n \<le> 0xD6) \<or> (0xD8 \<le> n \<and> n \<le> 0xF6) \<or> 0xF8 \<le> n)"

definition is_digit_char :: "char \<Rightarrow> bool" where
  "is_digit_char c = ((0x30::nat) \<le> of_char c \<and> of_char c \<le> (0x39::nat))"

definition is_flag_char :: "char \<Rightarrow> bool" where
  "is_flag_char c = (c \<in> set ''#0+ -'')"

definition is_conversion_char :: "char \<Rightarrow> bool" where
  "is_conversion_char c = (c \<in> set ''diouxefgcrsaDIOUXEFGCRSA%'')"

definition skip_width :: "string \<Rightarrow> string" where
  "skip_width s =
     (case s of
        [] \<Rightarrow> []
      | c # cs \<Rightarrow> if c = CHR ''*'' then cs else dropWhile is_digit_char s)"

definition skip_precision :: "string \<Rightarrow> string" where
  "skip_precision s =
     (case s of
        c # d # ds \<Rightarrow>
          if c = CHR ''.'' \<and> d = CHR ''*'' then ds
          else if c = CHR ''.'' \<and> is_digit_char d then dropWhile is_digit_char ds
          else s
      | other \<Rightarrow> s)"

definition validation_match :: "string \<Rightarrow> bool" where
  "validation_match s =
     (case s of
        p # q # rest \<Rightarrow>
          p = CHR ''%'' \<and> q = CHR ''('' \<and> takeWhile is_word_char rest \<noteq> []
          \<and> (case dropWhile is_word_char rest of
                [] \<Rightarrow> False
              | r # tail \<Rightarrow>
                  r = CHR '')''
                  \<and> (case skip_precision (skip_width (dropWhile is_flag_char tail)) of
                        [] \<Rightarrow> False
                      | c # cs \<Rightarrow> is_conversion_char c))
      | other \<Rightarrow> False)"

fun validation_search :: "string \<Rightarrow> bool" where
  "validation_search [] = False"
| "validation_search (c # cs) = (validation_match (c # cs) \<or> validation_search cs)"

text \<open>
  \<^verbatim>\<open>logging.Formatter.__init__(self, *args, **kwargs)\<close> with the keywords the
  formatter has left: the pattern it keeps, or the exception.
\<close>

definition Formatter_init :: "formatter_kwargs \<Rightarrow> pyerror + string" where
  "Formatter_init kw =
     (case kw_json_serializer kw of
        Some ser \<Rightarrow> Inl TypeError
      | None \<Rightarrow>
          (let pattern = (case kw_fmt kw of
                            None \<Rightarrow> ''%(message)s''
                          | Some f \<Rightarrow> if f = [] then ''%(message)s'' else f)
           in if kw_validate kw \<noteq> Some False \<and> \<not> validation_search pattern
              then Inl ValueError
              else Inr pattern))"

definition JsonFormatter_init :: "framework \<Rightarrow> formatter_kwargs \<Rightarrow> pyerror + json_formatter" where
  "JsonFormatter_init fw kw =
     (case Formatter_init kw of
        Inl e \<Rightarrow> Inl e
      | Inr pattern \<Rightarrow>
          (let self0 = \<lparr> fmt = pattern,
                         datefmt = kw_datefmt kw,
                         json_default =
                           (if kw_json_encoder kw = None \<and> kw_json_default kw = None
                            then Some (default_json_handler fw)
                            else kw_json_default kw),
                         json_encoder = kw_json_encoder kw,
                         json_serializer = json_dumps,
                         prefix = (case kw_prefix kw of None \<Rightarrow> [] | Some p \<Rightarrow> p),
                         required_fields = [],
                         skip_fields = [] \<rparr>;
               self1 = self0 \<lparr> required_fields := parse self0 \<rparr>;
               self2 = self1 \<lparr> skip_fields :=
                                 dict_update (dict_of_pairs (zip (required_fields self1)
                                                                 (required_fields self1)))
                                             RESERVED_ATTR_HASH \<rparr>
           in Inr self2))"

text \<open>Lines 163 to 165: the required fields, then the message payload over them.\<close>

definition required_and_payload :: "json_formatter \<Rightarrow> pydict \<Rightarrow> logrecord \<Rightarrow> pydict \<Rightarrow> pydict" where
  "required_and_payload self log_record r message_dict =
     dict_update
       (fold (\<lambda>field lr. dict_set lr (KStr field) (dict_get r (KStr field)))
             (required_fields self) log_record)
       message_dict"

definition add_fields :: "json_formatter \<Rightarrow> pydict \<Rightarrow> logrecord \<Rightarrow> pydict \<Rightarrow> pydict" where
  "add_fields self log_record r message_dict =
     merge_record_extra r (required_and_payload self log_record r message_dict)
       (skip_fields self)"

definition process_log_record :: "json_formatter \<Rightarrow> pydict \<Rightarrow> pydict" where
  "process_log_record self log_record = log_record"

definition jsonify_log_record :: "json_formatter \<Rightarrow> pydict \<Rightarrow> pyerror + string" where
  "jsonify_log_record self log_record = json_serializer self (PyDict log_record)"

subsection \<open>Rendering one event\<close>

text \<open>
  \<open>format\<close> assigns attributes of the event and, when the message is a mapping, items
  of that mapping: \<^verbatim>\<open>message_dict\<close> is then the very object \<^verbatim>\<open>record.msg\<close>
  holds. The model passes the event along and returns it; the local \<^verbatim>\<open>message_dict\<close>
  goes with a flag that says whether it is the event's own mapping, and an item set
  through it is then set in the \<^verbatim>\<open>msg\<close> attribute of the event as well.
  The result is the final event with the text, or with the exception raised.
\<close>

text \<open>Lines 181 to 186: the message payload and the \<^verbatim>\<open>message\<close> attribute.\<close>

definition format_message :: "framework \<Rightarrow> logrecord \<Rightarrow> logrecord \<times> (pyerror + pydict \<times> bool)" where
  "format_message fw r =
     (case getattr r ''msg'' of
        Inl e \<Rightarrow> (r, Inl e)
      | Inr m \<Rightarrow>
          (case isinstance_dict m of
             Some d \<Rightarrow> (setattr r ''message'' PyNone, Inr (d, True))
           | None \<Rightarrow>
               (case getMessage fw r of
                  Inl e \<Rightarrow> (r, Inl e)
                | Inr s \<Rightarrow> (setattr r ''message'' (PyStr s), Inr ([], False)))))"

text \<open>Lines 188 and 189: the time is formatted only when the pattern asks for it.\<close>

definition format_asctime :: "framework \<Rightarrow> json_formatter \<Rightarrow> logrecord \<Rightarrow> logrecord" where
  "format_asctime fw self r =
     (if ''asctime'' \<in> set (required_fields self)
      then setattr r ''asctime'' (PyStr (formatTime fw r (datefmt self)))
      else r)"

text \<open>\<^verbatim>\<open>message_dict[k] = v\<close>, seen through the event when the mapping is its own.\<close>

definition message_dict_set :: "bool \<Rightarrow> logrecord \<times> pydict \<Rightarrow> pykey \<Rightarrow> pyval \<Rightarrow> logrecord \<times> pydict" where
  "message_dict_set aliased st k v =
     (let md = dict_set (snd st) k v
      in (if aliased then setattr (fst st) ''msg'' (PyDict md) else fst st, md))"

text \<open>Lines 193 to 196: the exception text.\<close>

definition format_exc_info :: "framework \<Rightarrow> bool \<Rightarrow> logrecord \<times> pydict \<Rightarrow> (logrecord \<times> pydict) \<times> pyerror option" where
  "format_exc_info fw aliased st =
     (case getattr (fst st) ''exc_info'' of
        Inl e \<Rightarrow> (st, Some e)
      | Inr ei \<Rightarrow>
          (let st1 = (if truthy ei \<and> \<not> truthy (dict_get (snd st) (KStr ''exc_info''))
                      then message_dict_set aliased st (KStr ''exc_info'')
                             (PyStr (formatException fw ei))
                      else st)
           in if \<not> truthy (dict_get (snd st1) (KStr ''exc_info''))
              then (case getattr (fst st1) ''exc_text'' of
                      Inl e \<Rightarrow> (st1, Some e)
                    | Inr et \<Rightarrow>
                        if truthy et
                        then (message_dict_set aliased st1 (KStr ''exc_info'') et, None)
                        else (st1, None))
              else (st1, None)))"

text \<open>The ordered mapping that is serialized: \<^verbatim>\<open>log_record\<close> at line 204.\<close>

definition build_log_record :: "json_formatter \<Rightarrow> logrecord \<Rightarrow> pydict \<Rightarrow> pydict" where
  "build_log_record self r message_dict =
     process_log_record self (add_fields self [] r message_dict)"

text \<open>Lines 181 to 196: the event and the message payload before the record is built.\<close>

definition format_state :: "framework \<Rightarrow> json_formatter \<Rightarrow> logrecord \<Rightarrow> (logrecord \<times> pydict) \<times> pyerror option" where
  "format_state fw self r =
     (case format_message fw r of
        (r1, Inl e) \<Rightarrow> ((r1, []), Some e)
      | (r1, Inr (message_dict, aliased)) \<Rightarrow>
          format_exc_info fw aliased (format_asctime fw self r1, message_dict))"

definition format :: "framework \<Rightarrow> json_formatter \<Rightarrow> logrecord \<Rightarrow> logrecord \<times> (pyerror + string)" where
  "format fw self r =
     (case format_state fw self r of
        ((r3, message_dict), Some e) \<Rightarrow> (r3, Inl e)
      | ((r3, message_dict), None) \<Rightarrow>
          (r3, (case jsonify_log_record self (build_log_record self r3 message_dict) of
                  Inl e \<Rightarrow> Inl e
                | Inr s \<Rightarrow> Inr (prefix self @ s))))"

section \<open>Clock and calendar\<close>

text \<open>
  \<^verbatim>\<open>datetime.datetime.now()\<close> gives a naive local date and time, and
  \<^verbatim>\<open>time.time()\<close> the seconds since the epoch; both are inputs of the model.
  The calendar arithmetic is the library's: the proleptic Gregorian calendar with years
  1 to 9999, \<^verbatim>\<open>OverflowError\<close> beyond. \<^verbatim>\<open>time.mktime\<close> reads a local time in a
  zone with a fixed offset from UTC (in seconds, east positive); daylight saving
  changes are not part of the model.
\<close>

record datetime =
  year :: nat
  month :: nat
  day :: nat
  hour :: nat
  minute :: nat
  second :: nat
  microsecond :: nat

record struct_time =
  tm_year :: nat
  tm_mon :: nat
  tm_mday :: nat
  tm_hour :: nat
  tm_min :: nat
  tm_sec :: nat

definition is_leap :: "nat \<Rightarrow> bool" where
  "is_leap y = (y mod 4 = 0 \<and> (y mod 100 \<noteq> 0 \<or> y mod 400 = 0))"

definition days_in_month :: "nat \<Rightarrow> nat \<Rightarrow> nat" where
  "days_in_month y m =
     (if m = 2 \<and> is_leap y then 29
      else [31, 28, 31, 30, 31, 30, 31, 31, 30, 31, 30, 31] ! (m - 1))"

definition days_before_year :: "nat \<Rightarrow> int" where
  "days_before_year y =
     (let y1 = int y - 1 in y1 * 365 + y1 div 4 - y1 div 100 + y1 div 400)"

definition days_before_month :: "nat \<Rightarrow> nat \<Rightarrow> int" where
  "days_before_month y m = int (sum_list (map (days_in_month y) [1..<m]))"

definition ymd2ord :: "nat \<Rightarrow> nat \<Rightarrow> nat \<Rightarrow> int" where
  "ymd2ord y m d = days_before_year y + days_before_month y m + int d"

text \<open>\<^verbatim>\<open>dt + datetime.timedelta(days=1)\<close>: the same time on the next calendar day.\<close>

definition add_one_day :: "datetime \<Rightarrow> pyerror + datetime" where
  "add_one_day dt =
     (if day dt < days_in_month (year dt) (month dt) then Inr (dt \<lparr> day := day dt + 1 \<rparr>)
      else if month dt < 12 then Inr (dt \<lparr> month := month dt + 1, day := 1 \<rparr>)
      else if year dt < 9999 then Inr (dt \<lparr> year := year dt + 1, month := 1, day := 1 \<rparr>)
      else Inl OverflowError)"

definition timetuple :: "datetime \<Rightarrow> struct_time" where
  "timetuple dt =
     \<lparr> tm_year = year dt, tm_mon = month dt, tm_mday = day dt,
       tm_hour = hour dt, tm_min = minute dt, tm_sec = second dt \<rparr>"

definition mktime :: "int \<Rightarrow> struct_time \<Rightarrow> real" where
  "mktime utcoffset tt =
     of_int ((ymd2ord (tm_year tt) (tm_mon tt) (tm_mday tt) - ymd2ord 1970 1 1) * 86400
             + int (tm_hour tt) * 3600 + int (tm_min tt) * 60 + int (tm_sec tt)
             - utcoffset)"

definition zero_pad :: "nat \<Rightarrow> string \<Rightarrow> string" where
  "zero_pad w s = replicate (w - length s) CHR ''0'' @ s"

text \<open>\<^verbatim>\<open>now.strftime('%Y-%m-%d')\<close>, for a year of four digits.\<close>

definition strftime_ymd :: "datetime \<Rightarrow> string" where
  "strftime_ymd dt =
     zero_pad 4 (nat_digits (year dt)) @ ''-'' @ zero_pad 2 (nat_digits (month dt))
       @ ''-'' @ zero_pad 2 (nat_digits (day dt))"

section \<open>The file system\<close>

text \<open>
  The files by path, with their contents, and the reasons the system has to refuse
  the creation or the opening of a path (permissions, a missing directory, a full
  disk). A stream opened for appending is known by its path; each write to it goes to
  the end of the file, and writes do not fail.
\<close>

record filesystem =
  files :: "string \<rightharpoonup> string"
  create_fault :: "string \<Rightarrow> errno option"
  open_fault :: "string \<Rightarrow> errno option"

text \<open>\<^verbatim>\<open>os.open(path, os.O_CREAT | os.O_EXCL, mode)\<close> followed by \<^verbatim>\<open>os.close(fd)\<close>.\<close>

definition os_open_creat_excl :: "filesystem \<Rightarrow> string \<Rightarrow> errno + filesystem" where
  "os_open_creat_excl fs path =
     (if files fs path \<noteq> None then Inl EEXIST
      else (case create_fault fs path of
              Some e \<Rightarrow> Inl e
            | None \<Rightarrow> Inr (fs \<lparr> files := (files fs)(path \<mapsto> []) \<rparr>)))"

text \<open>\<^verbatim>\<open>open(path, 'a')\<close>: the file is created when it is not there.\<close>

definition open_append :: "filesystem \<Rightarrow> string \<Rightarrow> errno + filesystem" where
  "open_append fs path =
     (case open_fault fs path of
        Some e \<Rightarrow> Inl e
      | None \<Rightarrow>
          if files fs path \<noteq> None then Inr fs
          else (case create_fault fs path of
                  Some e \<Rightarrow> Inl e
                | None \<Rightarrow> Inr (fs \<lparr> files := (files fs)(path \<mapsto> []) \<rparr>)))"

definition stream_write :: "filesystem \<Rightarrow> string \<Rightarrow> string \<Rightarrow> filesystem" where
  "stream_write fs path bytes =
     fs \<lparr> files := (files fs)(path \<mapsto>
            (case files fs path of None \<Rightarrow> bytes | Some old \<Rightarrow> old @ bytes)) \<rparr>"

definition file_size :: "filesystem \<Rightarrow> string \<Rightarrow> nat" where
  "file_size fs path = (case files fs path of None \<Rightarrow> 0 | Some bytes \<Rightarrow> length bytes)"

section \<open>The rotating file handler\<close>

record handler =
  filename :: string
  rotate_at :: real
  baseFilename :: string
  stream :: "string option"

text \<open>The readings of the clock one call can take: \<^verbatim>\<open>time.time()\<close> in \<open>emit\<close>,
  \<^verbatim>\<open>datetime.now()\<close> in \<open>_next_rotate_at\<close> and \<^verbatim>\<open>datetime.now()\<close> in \<open>_open\<close>.\<close>

record clock =
  time_time :: real
  now_rotate :: datetime
  now_open :: datetime

definition next_rotate_at :: "int \<Rightarrow> datetime \<Rightarrow> pyerror + real" where
  "next_rotate_at utcoffset now =
     (case add_one_day (now \<lparr> hour := 0, minute := 0, second := 0, microsecond := 0 \<rparr>) of
        Inl e \<Rightarrow> Inl e
      | Inr next_day \<Rightarrow> Inr (mktime utcoffset (timetuple next_day)))"

definition log_today :: "handler \<Rightarrow> datetime \<Rightarrow> string" where
  "log_today h now = filename h @ ''.'' @ strftime_ymd now"

text \<open>Lines 40 to 47: the exclusive creation, with \<^verbatim>\<open>EEXIST\<close> let through.\<close>

definition open_create :: "filesystem \<Rightarrow> string \<Rightarrow> pyerror + filesystem" where
  "open_create fs path =
     (case os_open_creat_excl fs path of
        Inr fs1 \<Rightarrow> Inr fs1
      | Inl e \<Rightarrow> if e \<noteq> EEXIST then Inl (OSError e) else Inr fs)"

text \<open>Lines 48 and 49: the path is kept and opened for appending.\<close>

definition open_stream :: "handler \<Rightarrow> filesystem \<Rightarrow> string \<Rightarrow> (handler \<times> filesystem) \<times> (pyerror + string)" where
  "open_stream h fs path =
     (let h1 = h \<lparr> baseFilename := path \<rparr>
      in case open_append fs path of
           Inl e \<Rightarrow> ((h1, fs), Inl (OSError e))
         | Inr fs1 \<Rightarrow> ((h1, fs1), Inr path))"

text \<open>The method \<^verbatim>\<open>_open\<close>: the state after it, and the stream or the exception.\<close>

definition handler_open :: "handler \<Rightarrow> filesystem \<Rightarrow> datetime \<Rightarrow> (handler \<times> filesystem) \<times> (pyerror + string)" where
  "handler_open h fs now =
     (case open_create fs (log_today h now) of
        Inl e \<Rightarrow> ((h, fs), Inl e)
      | Inr fs1 \<Rightarrow> open_stream h fs1 (log_today h now))"

text \<open>
  The inherited methods. \<^verbatim>\<open>FileHandler.close\<close> closes the stream and forgets it.
  \<^verbatim>\<open>StreamHandler.emit\<close> formats the event with the formatter of the handler (the
  result is an input here), writes the text and the terminator, and hands an
  exception of the formatting to \<^verbatim>\<open>handleError\<close>, which does not raise.
  \<^verbatim>\<open>FileHandler.emit\<close> opens the stream first when the handler has none.
\<close>

definition handler_close :: "handler \<Rightarrow> handler" where
  "handler_close h = h \<lparr> stream := None \<rparr>"

definition StreamHandler_emit :: "filesystem \<Rightarrow> string \<Rightarrow> pyerror + string \<Rightarrow> filesystem" where
  "StreamHandler_emit fs s formatted =
     (case formatted of
        Inl e \<Rightarrow> fs
      | Inr msg \<Rightarrow> stream_write fs s (msg @ [newline]))"

definition FileHandler_emit :: "handler \<Rightarrow> filesystem \<Rightarrow> datetime \<Rightarrow> pyerror + string \<Rightarrow> (handler \<times> filesystem) \<times> pyerror option" where
  "FileHandler_emit h fs now formatted =
     (case stream h of
        Some s \<Rightarrow> ((h, StreamHandler_emit fs s formatted), None)
      | None \<Rightarrow>
          (case handler_open h fs now of
             (st, Inl e) \<Rightarrow> (st, Some e)
           | ((h1, fs1), Inr s) \<Rightarrow>
               ((h1 \<lparr> stream := Some s \<rparr>, StreamHandler_emit fs1 s formatted), None)))"

definition handler_init :: "int \<Rightarrow> string \<Rightarrow> filesystem \<Rightarrow> clock \<Rightarrow> filesystem \<times> (pyerror + handler)" where
  "handler_init utcoffset name fs clk =
     (case next_rotate_at utcoffset (now_rotate clk) of
        Inl e \<Rightarrow> (fs, Inl e)
      | Inr deadline \<Rightarrow>
          (case handler_open \<lparr> filename = name, rotate_at = deadline,
                               baseFilename = name, stream = None \<rparr> fs (now_open clk) of
             ((h1, fs1), Inl e) \<Rightarrow> (fs1, Inl e)
           | ((h1, fs1), Inr s) \<Rightarrow> (fs1, Inr (h1 \<lparr> stream := Some s \<rparr>))))"

definition emit :: "int \<Rightarrow> handler \<Rightarrow> filesystem \<Rightarrow> clock \<Rightarrow> pyerror + string \<Rightarrow> (handler \<times> filesystem) \<times> pyerror option" where
  "emit utcoffset h fs clk formatted =
     (if time_time clk > rotate_at h
      then (case next_rotate_at utcoffset (now_rotate clk) of
              Inl e \<Rightarrow> ((h, fs), Some e)
            | Inr deadline \<Rightarrow>
                FileHandler_emit (handler_close (h \<lparr> rotate_at := deadline \<rparr>)) fs
                  (now_open clk) formatted)
      else FileHandler_emit h fs (now_open clk) formatted)"


section \<open>Two handlers on one file system\<close>

text \<open>
  Several processes that log to one name each hold a handler of their own and share
  the file system. What one handler does to the file system is a sequence of system
  calls, and the calls of two handlers interleave: the exclusive creation and the
  opening for appending of \<open>_open\<close> are two steps, and every write is one.
  A process that meets an exception stops. A schedule says which process moves next.
\<close>

datatype action = ActCreate | ActOpen | ActWrite string

type_synonym process = "handler \<times> action list"

definition program :: "string list \<Rightarrow> action list" where
  "program msgs = ActCreate # ActOpen # map ActWrite msgs"

fun process_step :: "datetime \<Rightarrow> process \<Rightarrow> filesystem \<Rightarrow> process \<times> filesystem" where
  "process_step now (h, []) fs = ((h, []), fs)"
| "process_step now (h, ActCreate # todo) fs =
     (case open_create fs (log_today h now) of
        Inl e \<Rightarrow> ((h, []), fs)
      | Inr fs1 \<Rightarrow> ((h, todo), fs1))"
| "process_step now (h, ActOpen # todo) fs =
     (case open_stream h fs (log_today h now) of
        ((h1, fs1), Inl e) \<Rightarrow> ((h1, []), fs1)
      | ((h1, fs1), Inr s) \<Rightarrow> ((h1 \<lparr> stream := Some s \<rparr>, todo), fs1))"
| "process_step now (h, ActWrite msg # todo) fs =
     (case FileHandler_emit h fs now (Inr msg) of
        ((h1, fs1), Some e) \<Rightarrow> ((h1, []), fs1)
      | ((h1, fs1), None) \<Rightarrow> ((h1, todo), fs1))"

fun run :: "datetime \<Rightarrow> bool list \<Rightarrow> process \<times> process \<times> filesystem \<Rightarrow> process \<times> process \<times> filesystem" where
  "run now [] cfg = cfg"
| "run now (first # sched) (pa, pb, fs) =
     (if first
      then (case process_step now pa fs of (pa1, fs1) \<Rightarrow> run now sched (pa1, pb, fs1))
      else (case process_step now pb fs of (pb1, fs1) \<Rightarrow> run now sched (pa, pb1, fs1)))"

text \<open>The bytes a process has still to write.\<close>

fun pending :: "action list \<Rightarrow> nat" where
  "pending [] = 0"
| "pending (ActWrite msg # todo) = length msg + 1 + pending todo"
| "pending (a # todo) = pending todo"

text \<open>
  What holds of a process between two steps, given whether the day's file is there and
  whether the handler holds a stream on it: the process is before the creation, or
  before the opening with the file there, or it has only writes left, with the file
  there and the stream on it.
\<close>

fun is_write :: "action \<Rightarrow> bool" where
  "is_write (ActWrite msg) = True"
| "is_write a = False"

fun todo_ok :: "bool \<Rightarrow> bool \<Rightarrow> action list \<Rightarrow> bool" where
  "todo_ok there streaming (ActCreate # ActOpen # todo) = list_all is_write todo"
| "todo_ok there streaming (ActOpen # todo) = (there \<and> list_all is_write todo)"
| "todo_ok there streaming todo = (there \<and> streaming \<and> list_all is_write todo)"

definition process_ok :: "datetime \<Rightarrow> string \<Rightarrow> filesystem \<Rightarrow> process \<Rightarrow> bool" where
  "process_ok now path fs p =
     (log_today (fst p) now = path
      \<and> todo_ok (files fs path \<noteq> None) (stream (fst p) = Some path) (snd p))"

text \<open>
  What holds of the two processes and the file system between two steps: the system
  has no reason to refuse the day's file, no other file appears or goes, and the bytes
  in the day's file with the bytes still to write make up \<open>expected\<close>.
\<close>

definition system_ok :: "datetime \<Rightarrow> string \<Rightarrow> filesystem \<Rightarrow> nat \<Rightarrow> process \<times> process \<times> filesystem \<Rightarrow> bool" where
  "system_ok now path fs0 expected cfg =
     (case cfg of
        (pa, pb, fs) \<Rightarrow>
          process_ok now path fs pa \<and> process_ok now path fs pb
          \<and> create_fault fs path = None \<and> open_fault fs path = None
          \<and> dom (files fs0) \<subseteq> dom (files fs)
          \<and> dom (files fs) \<subseteq> insert path (dom (files fs0))
          \<and> file_size fs path + pending (snd pa) + pending (snd pb) = expected)"

section \<open>Reading the claims\<close>

text \<open>
  An attribute of the event is merged as an extra when its name is not reserved and
  does not start with an underscore.
\<close>

definition mergeable :: "(string \<times> string) list \<Rightarrow> pykey \<Rightarrow> bool" where
  "mergeable reserved k = (\<not> key_in k reserved \<and> \<not> key_startswith k ''_'')"

text \<open>
  A well-formed event: no attribute name twice, and no key twice in a message that is
  a mapping (both are dictionaries in the source).
\<close>

definition wf_record :: "logrecord \<Rightarrow> bool" where
  "wf_record r =
     (distinct (map fst r) \<and>
      (case getattr r ''msg'' of
         Inl e \<Rightarrow> True
       | Inr m \<Rightarrow> (case isinstance_dict m of None \<Rightarrow> True | Some d \<Rightarrow> distinct (map fst d))))"

text \<open>
  The field names enclosed in parentheses, in the words of the specification: from each
  opening parenthesis that has a closing one after it, the text up to the next closing
  parenthesis; the scan goes on after that closing parenthesis.
\<close>

fun enclosed_fields :: "string \<Rightarrow> string list" where
  "enclosed_fields [] = []"
| "enclosed_fields (c # cs) =
     (if c = CHR ''('' \<and> CHR '')'' \<in> set cs
      then takeWhile (\<lambda>x. x \<noteq> CHR '')'') cs
             # enclosed_fields (drop (Suc (length (takeWhile (\<lambda>x. x \<noteq> CHR '')'') cs))) cs)
      else enclosed_fields cs)"

section \<open>Example inputs\<close>

text \<open>
  A framework whose events carry plain messages without arguments, a formatter built
  from a pattern alone, and an event with the attributes the examples read.
\<close>

definition example_framework :: framework where
  "example_framework =
     \<lparr> getMessage = (\<lambda>r. case dict_get r (KStr ''msg'') of
                             PyStr s \<Rightarrow> Inr s | other \<Rightarrow> Inl TypeError),
       formatTime = (\<lambda>r fm. ''2020-03-14 12:00:00,000''),
       formatException = (\<lambda>ei. ''Traceback (most recent call last): ...''),
       builtin_str = (\<lambda>obj. case obj of PyException m \<Rightarrow> m | PyObject n \<Rightarrow> n | other \<Rightarrow> []) \<rparr>"

definition example_kwargs :: "string \<Rightarrow> formatter_kwargs" where
  "example_kwargs pattern =
     \<lparr> kw_fmt = Some pattern, kw_datefmt = None, kw_json_default = None,
       kw_json_encoder = None, kw_json_serializer = None, kw_prefix = None,
       kw_validate = None \<rparr>"

definition example_formatter :: "string \<Rightarrow> json_formatter" where
  "example_formatter pattern =
     \<lparr> fmt = pattern, datefmt = None,
       json_default = Some (default_json_handler example_framework),
       json_encoder = None, json_serializer = json_dumps, prefix = [],
       required_fields = findall pattern,
       skip_fields = dict_update (dict_of_pairs (zip (findall pattern) (findall pattern)))
                                 RESERVED_ATTR_HASH \<rparr>"

definition example_record :: "pyval \<Rightarrow> pyval \<Rightarrow> pyval \<Rightarrow> pydict \<Rightarrow> logrecord" where
  "example_record m ei et extras =
     [(KStr ''name'', PyStr ''root''), (KStr ''msg'', m), (KStr ''args'', PyTuple []),
      (KStr ''levelname'', PyStr ''INFO''), (KStr ''levelno'', PyInt 20),
      (KStr ''exc_info'', ei), (KStr ''exc_text'', et)] @ extras"

definition example_handler :: "string option \<Rightarrow> handler" where
  "example_handler s =
     \<lparr> filename = ''app.log'', rotate_at = 1584201600,
       baseFilename = ''app.log.2020-03-14'', stream = s \<rparr>"

definition example_fs :: "(string \<rightharpoonup> string) \<Rightarrow> filesystem" where
  "example_fs fl = \<lparr> files = fl, create_fault = (\<lambda>p. None), open_fault = (\<lambda>p. None) \<rparr>"

definition example_now :: "nat \<Rightarrow> nat \<Rightarrow> datetime" where
  "example_now d h =
     \<lparr> year = 2020, month = 3, day = d, hour = h, minute = 30, second = 15,
       microsecond = 250000 \<rparr>"


section \<open>Properties of the dictionaries\<close>

lemma map_of_dict_set: "map_of (dict_set d k v) = (map_of d)(k \<mapsto> v)"
  by (induction d k v rule: dict_set.induct) (auto simp: fun_eq_iff)

lemma keys_dict_set: "fst ` set (dict_set d k v) = insert k (fst ` set d)"
  by (induction d k v rule: dict_set.induct) auto

lemma distinct_dict_set: "distinct (map fst d) \<Longrightarrow> distinct (map fst (dict_set d k v))"
proof (induction d k v rule: dict_set.induct)
  case (1 k v)
  then show ?case by simp
next
  case (2 k' v' d k v)
  then show ?case
    using keys_dict_set [of d k v] by (auto simp: image_iff)
qed

lemma map_of_fold_dict_set:
  "distinct (map fst other) \<Longrightarrow>
   map_of (fold (\<lambda>kv acc. dict_set acc (fst kv) (snd kv)) other d) = map_of d ++ map_of other"
proof (induction other arbitrary: d)
  case Nil
  then show ?case by simp
next
  case (Cons kv other)
  obtain k v where kv: "kv = (k, v)" by (cases kv)
  from Cons.prems have nk: "k \<notin> fst ` set other" and dist: "distinct (map fst other)"
    by (auto simp: kv)
  from nk have none: "map_of other k = None"
    by (simp add: map_of_eq_None_iff)
  show ?case
    using Cons.IH [OF dist, of "dict_set d k v"] none
    by (auto simp: kv map_of_dict_set fun_eq_iff map_add_def split: option.splits)
qed

lemma map_of_dict_update:
  "distinct (map fst other) \<Longrightarrow> map_of (dict_update d other) = map_of d ++ map_of other"
  by (simp add: dict_update_def map_of_fold_dict_set)

lemma keys_dict_update: "fst ` set (dict_update d other) = fst ` set d \<union> fst ` set other"
  unfolding dict_update_def
  by (induction other arbitrary: d) (auto simp: keys_dict_set)

lemma distinct_dict_update:
  "distinct (map fst d) \<Longrightarrow> distinct (map fst (dict_update d other))"
  unfolding dict_update_def
  by (induction other arbitrary: d) (auto simp: distinct_dict_set)

lemma merge_step_cond:
  "(\<not> key_in k reserved \<and> \<not> (hasattr_startswith k \<and> key_startswith k ''_'')) = mergeable reserved k"
  by (cases k) (auto simp: mergeable_def hasattr_startswith_def key_startswith_def)

lemma map_of_merge_record_extra:
  "distinct (map fst r) \<Longrightarrow>
   map_of (merge_record_extra r target reserved) k =
     (if k \<in> fst ` set r \<and> mergeable reserved k then map_of r k else map_of target k)"
  unfolding merge_record_extra_def merge_step_cond
proof (induction r arbitrary: target)
  case Nil
  then show ?case by simp
next
  case (Cons item r)
  obtain k' v' where item: "item = (k', v')" by (cases item)
  from Cons.prems have nk: "k' \<notin> fst ` set r" and dist: "distinct (map fst r)"
    by (auto simp: item)
  show ?case
    using Cons.IH [OF dist] nk
    by (auto simp: item map_of_dict_set)
qed

lemma distinct_merge_record_extra:
  "distinct (map fst target) \<Longrightarrow> distinct (map fst (merge_record_extra r target reserved))"
  unfolding merge_record_extra_def
  by (induction r arbitrary: target) (auto simp: distinct_dict_set)

lemma distinct_fold_required:
  "distinct (map fst lr) \<Longrightarrow>
   distinct (map fst (fold (\<lambda>field lr. dict_set lr (KStr field) (dict_get r (KStr field))) flds lr))"
  by (induction flds arbitrary: lr) (auto simp: distinct_dict_set)

lemma map_of_fold_required:
  "map_of (fold (\<lambda>field lr. dict_set lr (KStr field) (dict_get r (KStr field))) flds lr) k =
     (if k \<in> KStr ` set flds then Some (dict_get r k) else map_of lr k)"
  by (induction flds arbitrary: lr) (auto simp: map_of_dict_set)

lemma distinct_build_log_record: "distinct (map fst (build_log_record self r md))"
  by (simp add: build_log_record_def process_log_record_def add_fields_def
      required_and_payload_def distinct_merge_record_extra distinct_dict_update
      distinct_fold_required)

lemma map_of_required_and_payload:
  "distinct (map fst md) \<Longrightarrow>
   map_of (required_and_payload self [] r md) k =
     (case map_of md k of
        Some v \<Rightarrow> Some v
      | None \<Rightarrow> if k \<in> KStr ` set (required_fields self) then Some (dict_get r k) else None)"
  by (simp add: required_and_payload_def map_of_dict_update map_add_def map_of_fold_required
      split: option.splits)

lemma map_of_build_log_record:
  "distinct (map fst r) \<Longrightarrow>
   map_of (build_log_record self r md) k =
     (if k \<in> fst ` set r \<and> mergeable (skip_fields self) k then map_of r k
      else map_of (required_and_payload self [] r md) k)"
  by (simp add: build_log_record_def process_log_record_def add_fields_def
      map_of_merge_record_extra)

lemma init_fields:
  assumes "JsonFormatter_init fw kw = Inr self"
  shows "required_fields self = findall (fmt self)"
    and "skip_fields self =
           dict_update (dict_of_pairs (zip (required_fields self) (required_fields self)))
             RESERVED_ATTR_HASH"
    and "json_serializer self = json_dumps"
  using assms
  by (auto simp: JsonFormatter_init_def parse_def Let_def split: sum.splits)

lemma keys_zip_same: "fst ` set (zip xs xs) = set xs"
  by (induction xs) auto

lemma keys_RESERVED_ATTR_HASH: "fst ` set RESERVED_ATTR_HASH = set RESERVED_ATTRS"
  by (simp add: RESERVED_ATTR_HASH_def dict_of_pairs_def keys_dict_update keys_zip_same)

lemma init_key_in:
  assumes "JsonFormatter_init fw kw = Inr self"
  shows "key_in k (skip_fields self) =
           (k \<in> KStr ` set (required_fields self) \<or> k \<in> KStr ` set RESERVED_ATTRS)"
  using init_fields(2) [OF assms]
  by (cases k)
     (auto simp: key_in_def dict_contains_def keys_dict_update dict_of_pairs_def keys_zip_same
       keys_RESERVED_ATTR_HASH)

lemmas validation_defs = validation_match_def skip_width_def skip_precision_def
  is_word_char_def is_digit_char_def is_flag_char_def is_conversion_char_def

lemma init_example:
  "pattern \<noteq> [] \<Longrightarrow> validation_search pattern \<Longrightarrow>
   JsonFormatter_init example_framework (example_kwargs pattern) =
     Inr (example_formatter pattern)"
  by (simp add: JsonFormatter_init_def Formatter_init_def example_kwargs_def
      example_formatter_def parse_def)

lemma init_example_unvalidated:
  "pattern \<noteq> [] \<Longrightarrow>
   JsonFormatter_init example_framework
     ((example_kwargs pattern) \<lparr> kw_validate := Some False \<rparr>) =
     Inr (example_formatter pattern)"
  by (simp add: JsonFormatter_init_def Formatter_init_def example_kwargs_def
      example_formatter_def parse_def)

section \<open>Properties of the rendering steps\<close>

lemma getattr_setattr:
  "getattr (setattr r n v) n' = (if n' = n then Inr v else getattr r n')"
  by (simp add: getattr_def setattr_def map_of_dict_set)

lemma distinct_setattr: "distinct (map fst r) \<Longrightarrow> distinct (map fst (setattr r n v))"
  by (simp add: setattr_def distinct_dict_set)

lemma keys_setattr: "fst ` set (setattr r n v) = insert (KStr n) (fst ` set r)"
  by (simp add: setattr_def keys_dict_set)

lemma dict_get_dict_set:
  "dict_get (dict_set d k v) k' = (if k' = k then v else dict_get d k')"
  by (simp add: dict_get_def map_of_dict_set)

lemma format_message_dict:
  "getattr r ''msg'' = Inr m \<Longrightarrow> isinstance_dict m = Some d \<Longrightarrow>
   format_message fw r = (setattr r ''message'' PyNone, Inr (d, True))"
  by (simp add: format_message_def)

lemma format_message_plain:
  "getattr r ''msg'' = Inr m \<Longrightarrow> isinstance_dict m = None \<Longrightarrow> getMessage fw r = Inr s \<Longrightarrow>
   format_message fw r = (setattr r ''message'' (PyStr s), Inr ([], False))"
  by (simp add: format_message_def)

lemma isinstance_dict_Some: "isinstance_dict m = Some d \<longleftrightarrow> m = PyDict d"
  by (cases m) auto

lemma format_message_cases:
  assumes "format_message fw r = (r1, Inr (md0, al))"
  obtains d where "getattr r ''msg'' = Inr (PyDict d)" "md0 = d" "al" "r1 = setattr r ''message'' PyNone"
  | m s where "getattr r ''msg'' = Inr m" "isinstance_dict m = None" "getMessage fw r = Inr s"
      "md0 = []" "\<not> al" "r1 = setattr r ''message'' (PyStr s)"
  using assms
  by (auto simp: format_message_def isinstance_dict_Some split: sum.splits option.splits)

lemma message_dict_set_snd: "snd (message_dict_set al st k v) = dict_set (snd st) k v"
  by (simp add: message_dict_set_def Let_def)

lemma message_dict_set_fst:
  "fst (message_dict_set al st k v) =
     (if al then setattr (fst st) ''msg'' (PyDict (dict_set (snd st) k v)) else fst st)"
  by (simp add: message_dict_set_def Let_def)

lemma format_exc_info_result:
  assumes ei: "getattr r ''exc_info'' = Inr ei" and et: "getattr r ''exc_text'' = Inr et"
  shows "format_exc_info fw al (r, md) =
     (let exc = KStr ''exc_info'';
          st1 = (if truthy ei \<and> \<not> truthy (dict_get md exc)
                 then message_dict_set al (r, md) exc (PyStr (formatException fw ei))
                 else (r, md))
      in (if \<not> truthy (dict_get (snd st1) exc) \<and> truthy et
          then message_dict_set al st1 exc et else st1, None))"
  using ei et
  by (auto simp: format_exc_info_def Let_def message_dict_set_fst getattr_setattr
      split: sum.splits)

lemma map_of_setattr: "map_of (setattr r n v) = (map_of r)(KStr n \<mapsto> v)"
  by (simp add: setattr_def map_of_dict_set)

lemma format_asctime_frame:
  "k \<noteq> KStr ''asctime'' \<Longrightarrow> map_of (format_asctime fw self r) k = map_of r k"
  by (simp add: format_asctime_def map_of_setattr)

lemma format_asctime_keys:
  "fst ` set (format_asctime fw self r) =
     (if ''asctime'' \<in> set (required_fields self) then insert (KStr ''asctime'') (fst ` set r)
      else fst ` set r)"
  by (simp add: format_asctime_def keys_setattr)

lemma format_asctime_distinct:
  "distinct (map fst r) \<Longrightarrow> distinct (map fst (format_asctime fw self r))"
  by (simp add: format_asctime_def distinct_setattr)

lemma message_dict_set_frame:
  "k' \<noteq> KStr ''msg'' \<Longrightarrow> map_of (fst (message_dict_set al st k v)) k' = map_of (fst st) k'"
  by (simp add: message_dict_set_fst map_of_setattr)

lemma message_dict_set_keys:
  "KStr ''msg'' \<in> fst ` set (fst st) \<Longrightarrow>
   fst ` set (fst (message_dict_set al st k v)) = fst ` set (fst st)"
  by (auto simp: message_dict_set_fst keys_setattr)

lemma message_dict_set_distinct:
  "distinct (map fst (fst st)) \<Longrightarrow> distinct (map fst (snd st)) \<Longrightarrow>
   distinct (map fst (fst (message_dict_set al st k v))) \<and>
   distinct (map fst (snd (message_dict_set al st k v)))"
  by (simp add: message_dict_set_fst message_dict_set_snd distinct_setattr distinct_dict_set)

lemma format_exc_info_updates:
  assumes "format_exc_info fw al st = (st', res)"
  shows "\<exists>ups. st' = fold (\<lambda>v s. message_dict_set al s (KStr ''exc_info'') v) ups st"
proof (cases "getattr (fst st) ''exc_info''")
  case (Inl e)
  with assms have "st' = st" by (simp add: format_exc_info_def)
  then have "st' = fold (\<lambda>v s. message_dict_set al s (KStr ''exc_info'') v) [] st" by simp
  then show ?thesis ..
next
  case (Inr ei)
  define st1 where "st1 = (if truthy ei \<and> \<not> truthy (dict_get (snd st) (KStr ''exc_info''))
                      then message_dict_set al st (KStr ''exc_info'')
                             (PyStr (formatException fw ei))
                      else st)"
  have one: "\<exists>ups. st1 = fold (\<lambda>v s. message_dict_set al s (KStr ''exc_info'') v) ups st"
  proof (cases "truthy ei \<and> \<not> truthy (dict_get (snd st) (KStr ''exc_info''))")
    case True
    then have "st1 = fold (\<lambda>v s. message_dict_set al s (KStr ''exc_info'') v)
                       [PyStr (formatException fw ei)] st"
      by (simp add: st1_def)
    then show ?thesis ..
  next
    case False
    then have "st1 = st"
      unfolding st1_def by (rule if_not_P)
    then have "st1 = fold (\<lambda>v s. message_dict_set al s (KStr ''exc_info'') v) [] st"
      by simp
    then show ?thesis ..
  qed
  then obtain ups where ups: "st1 = fold (\<lambda>v s. message_dict_set al s (KStr ''exc_info'') v) ups st"
    by blast
  have "format_exc_info fw al st =
          (if \<not> truthy (dict_get (snd st1) (KStr ''exc_info''))
           then (case getattr (fst st1) ''exc_text'' of
                   Inl e \<Rightarrow> (st1, Some e)
                 | Inr et \<Rightarrow>
                     if truthy et
                     then (message_dict_set al st1 (KStr ''exc_info'') et, None)
                     else (st1, None))
           else (st1, None))"
    unfolding st1_def format_exc_info_def Let_def Inr sum.case by (rule refl)
  with assms have "st' = st1 \<or> (\<exists>et. st' = message_dict_set al st1 (KStr ''exc_info'') et)"
    by (auto split: sum.splits if_splits)
  then show ?thesis
  proof
    assume "st' = st1"
    with ups show ?thesis by blast
  next
    assume "\<exists>et. st' = message_dict_set al st1 (KStr ''exc_info'') et"
    then obtain et where "st' = message_dict_set al st1 (KStr ''exc_info'') et" ..
    with ups have "st' = fold (\<lambda>v s. message_dict_set al s (KStr ''exc_info'') v) (ups @ [et]) st"
      by simp
    then show ?thesis ..
  qed
qed

lemma fold_message_dict_set_props:
  "(k \<noteq> KStr ''msg'' \<longrightarrow>
      map_of (fst (fold (\<lambda>v s. message_dict_set al s ek v) ups st)) k = map_of (fst st) k)
   \<and> (KStr ''msg'' \<in> fst ` set (fst st) \<longrightarrow>
      fst ` set (fst (fold (\<lambda>v s. message_dict_set al s ek v) ups st)) = fst ` set (fst st))
   \<and> (distinct (map fst (fst st)) \<and> distinct (map fst (snd st)) \<longrightarrow>
      distinct (map fst (fst (fold (\<lambda>v s. message_dict_set al s ek v) ups st))) \<and>
      distinct (map fst (snd (fold (\<lambda>v s. message_dict_set al s ek v) ups st))))"
proof (induction ups arbitrary: st)
  case Nil
  then show ?case by simp
next
  case (Cons v ups)
  show ?case
    using Cons.IH [of "message_dict_set al st ek v"]
    by (simp add: message_dict_set_frame message_dict_set_keys message_dict_set_distinct)
qed

lemma format_exc_info_props:
  assumes "format_exc_info fw al st = (st', res)"
  shows "k \<noteq> KStr ''msg'' \<Longrightarrow> map_of (fst st') k = map_of (fst st) k"
    and "KStr ''msg'' \<in> fst ` set (fst st) \<Longrightarrow> fst ` set (fst st') = fst ` set (fst st)"
    and "distinct (map fst (fst st)) \<Longrightarrow> distinct (map fst (snd st)) \<Longrightarrow>
         distinct (map fst (fst st')) \<and> distinct (map fst (snd st'))"
proof -
  from format_exc_info_updates [OF assms] obtain ups
    where ups: "st' = fold (\<lambda>v s. message_dict_set al s (KStr ''exc_info'') v) ups st" ..
  show "k \<noteq> KStr ''msg'' \<Longrightarrow> map_of (fst st') k = map_of (fst st) k"
    using fold_message_dict_set_props [of k al "KStr ''exc_info''" ups st] ups by simp
  show "KStr ''msg'' \<in> fst ` set (fst st) \<Longrightarrow> fst ` set (fst st') = fst ` set (fst st)"
    using fold_message_dict_set_props [of k al "KStr ''exc_info''" ups st] ups by simp
  show "distinct (map fst (fst st)) \<Longrightarrow> distinct (map fst (snd st)) \<Longrightarrow>
         distinct (map fst (fst st')) \<and> distinct (map fst (snd st'))"
    using fold_message_dict_set_props [of k al "KStr ''exc_info''" ups st] ups by simp
qed

lemma getattr_keys: "getattr r n = Inr v \<Longrightarrow> KStr n \<in> fst ` set r"
  by (auto simp: getattr_def split: option.splits dest!: map_of_SomeD intro: rev_image_eqI)

lemma format_state_success:
  assumes "format_state fw self r0 = ((r, md), None)"
  obtains r1 md0 al where "format_message fw r0 = (r1, Inr (md0, al))"
    and "format_exc_info fw al (format_asctime fw self r1, md0) = ((r, md), None)"
  using assms
  by (auto simp: format_state_def split: prod.splits sum.splits)

lemma format_message_frame:
  assumes "format_message fw r0 = (r1, res)"
  shows "k \<noteq> KStr ''message'' \<Longrightarrow> map_of r1 k = map_of r0 k"
    and "distinct (map fst r0) \<Longrightarrow> distinct (map fst r1)"
  using assms
  by (auto simp: format_message_def map_of_setattr distinct_setattr
      split: sum.splits option.splits)

lemma format_message_keys:
  assumes "format_message fw r0 = (r1, Inr (md0, al))"
  shows "fst ` set r1 = insert (KStr ''message'') (fst ` set r0)"
    and "KStr ''msg'' \<in> fst ` set r0"
  using assms
  by (rule format_message_cases; simp add: keys_setattr getattr_keys)+

lemma format_message_wf:
  assumes "format_message fw r0 = (r1, Inr (md0, al))" and "wf_record r0"
  shows "distinct (map fst md0)"
  using assms
  by (auto simp: format_message_def wf_record_def split: sum.splits option.splits)

lemma format_state_frame:
  assumes st: "format_state fw self r0 = ((r, md), None)"
  shows "k \<notin> KStr ` {''msg'', ''message'', ''asctime''} \<Longrightarrow> map_of r k = map_of r0 k"
    and "fst ` set r = fst ` set r0 \<union> {KStr ''message''}
           \<union> (if ''asctime'' \<in> set (required_fields self) then {KStr ''asctime''} else {})"
    and "wf_record r0 \<Longrightarrow> distinct (map fst r) \<and> distinct (map fst md)"
proof -
  from st obtain r1 md0 al where fm: "format_message fw r0 = (r1, Inr (md0, al))"
    and fe: "format_exc_info fw al (format_asctime fw self r1, md0) = ((r, md), None)"
    by (rule format_state_success)
  show "k \<notin> KStr ` {''msg'', ''message'', ''asctime''} \<Longrightarrow> map_of r k = map_of r0 k"
    using format_exc_info_props(1) [OF fe, of k] format_message_frame(1) [OF fm, of k]
    by (simp add: format_asctime_frame)
  have msg: "KStr ''msg'' \<in> fst ` set (format_asctime fw self r1)"
    using format_message_keys [OF fm] by (simp add: format_asctime_keys)
  show "fst ` set r = fst ` set r0 \<union> {KStr ''message''}
           \<union> (if ''asctime'' \<in> set (required_fields self) then {KStr ''asctime''} else {})"
    using format_exc_info_props(2) [OF fe] msg format_message_keys(1) [OF fm]
    by (auto simp: format_asctime_keys)
  show "wf_record r0 \<Longrightarrow> distinct (map fst r) \<and> distinct (map fst md)"
    using format_exc_info_props(3) [OF fe] format_message_wf [OF fm]
      format_message_frame(2) [OF fm]
    by (simp add: format_asctime_distinct wf_record_def)
qed

lemma reserved_not_mergeable:
  assumes "JsonFormatter_init fw kw = Inr self" and "n \<in> set RESERVED_ATTRS"
  shows "\<not> mergeable (skip_fields self) (KStr n)"
  using assms by (simp add: mergeable_def init_key_in)

lemma required_not_mergeable:
  assumes "JsonFormatter_init fw kw = Inr self" and "k \<in> KStr ` set (required_fields self)"
  shows "\<not> mergeable (skip_fields self) k"
  using assms by (simp add: mergeable_def init_key_in)

lemma format_serializes:
  assumes "JsonFormatter_init fw kw = Inr self"
    and "format_state fw self r0 = ((r, md), None)"
  shows "format fw self r0 =
           (r, case json_dumps (PyDict (build_log_record self r md)) of
                 Inl e \<Rightarrow> Inl e | Inr s \<Rightarrow> Inr (prefix self @ s))"
  using assms by (simp add: format_def jsonify_log_record_def init_fields(3))


lemmas example_defs = example_framework_def example_kwargs_def example_formatter_def
  example_record_def

lemmas format_defs = format_state_def format_message_def format_asctime_def
  format_exc_info_def message_dict_set_def getattr_def setattr_def dict_get_def
  newline_def Let_def

lemma findall_three:
  "findall ''(asctime) (levelname) (message)'' = [''asctime'', ''levelname'', ''message'']"
  by (simp add: newline_def)


section \<open>The formatter\<close>

text \<open>
  Claim C7. For every formatted record, an attribute of the event is merged into the
  output as an extra only if its name is not a required field, is not a reserved
  attribute name and does not start with an underscore: for such a name the output
  holds the value of the attribute, and for every other name the output holds what the
  required fields and the message payload gave. No key is emitted twice. The text
  \<open>format\<close> returns is the serialization of this mapping behind the prefix.
\<close>

theorem extras_merged_unless_reserved:
  assumes init: "JsonFormatter_init fw kw = Inr self"
    and wf: "wf_record r0"
    and st: "format_state fw self r0 = ((r, md), None)"
  shows "map_of (build_log_record self r md) k =
           (if k \<in> fst ` set r0 \<and> k \<notin> KStr ` set (required_fields self)
               \<and> k \<notin> KStr ` set RESERVED_ATTRS \<and> \<not> key_startswith k ''_''
            then map_of r0 k
            else map_of (required_and_payload self [] r md) k)
         \<and> distinct (map fst (build_log_record self r md))
         \<and> format fw self r0 =
             (r, case json_dumps (PyDict (build_log_record self r md)) of
                   Inl e \<Rightarrow> Inl e | Inr s \<Rightarrow> Inr (prefix self @ s))"
proof -
  have dist: "distinct (map fst r)"
    using format_state_frame(3) [OF st wf] by simp
  have res: "KStr ` {''msg'', ''message'', ''asctime''} \<subseteq> KStr ` set RESERVED_ATTRS"
    by (simp add: RESERVED_ATTRS_def)
  have keys: "k \<notin> KStr ` set RESERVED_ATTRS \<Longrightarrow> (k \<in> fst ` set r) = (k \<in> fst ` set r0)"
    using format_state_frame(2) [OF st] res by (auto simp: RESERVED_ATTRS_def)
  have vals: "k \<notin> KStr ` set RESERVED_ATTRS \<Longrightarrow> map_of r k = map_of r0 k"
    using format_state_frame(1) [OF st, of k] res by blast
  have merge: "mergeable (skip_fields self) k =
          (k \<notin> KStr ` set (required_fields self) \<and> k \<notin> KStr ` set RESERVED_ATTRS
           \<and> \<not> key_startswith k ''_'')"
    by (auto simp: mergeable_def init_key_in [OF init])
  have "map_of (build_log_record self r md) k =
           (if k \<in> fst ` set r0 \<and> k \<notin> KStr ` set (required_fields self)
               \<and> k \<notin> KStr ` set RESERVED_ATTRS \<and> \<not> key_startswith k ''_''
            then map_of r0 k
            else map_of (required_and_payload self [] r md) k)"
    unfolding map_of_build_log_record [OF dist] merge
    using keys vals by auto
  then show ?thesis
    using distinct_build_log_record format_serializes [OF init st] by simp
qed

theorem extras_merged_unless_reserved_witness:
  "JsonFormatter_init example_framework (example_kwargs ''%(levelname)s %(message)s'') =
     Inr (example_formatter ''%(levelname)s %(message)s'')
   \<and> wf_record (example_record (PyStr ''hello'') PyNone PyNone
                   [(KStr ''user'', PyStr ''bob''), (KStr ''_hidden'', PyInt 1)])
   \<and> format_state example_framework (example_formatter ''%(levelname)s %(message)s'')
        (example_record (PyStr ''hello'') PyNone PyNone
           [(KStr ''user'', PyStr ''bob''), (KStr ''_hidden'', PyInt 1)]) =
       ((example_record (PyStr ''hello'') PyNone PyNone
           [(KStr ''user'', PyStr ''bob''), (KStr ''_hidden'', PyInt 1),
            (KStr ''message'', PyStr ''hello'')], []), None)
   \<and> build_log_record (example_formatter ''%(levelname)s %(message)s'')
        (example_record (PyStr ''hello'') PyNone PyNone
           [(KStr ''user'', PyStr ''bob''), (KStr ''_hidden'', PyInt 1),
            (KStr ''message'', PyStr ''hello'')]) [] =
       [(KStr ''levelname'', PyStr ''INFO''), (KStr ''message'', PyStr ''hello''),
        (KStr ''user'', PyStr ''bob'')]
   \<and> map_of (build_log_record (example_formatter ''%(levelname)s %(message)s'')
        (example_record (PyStr ''hello'') PyNone PyNone
           [(KStr ''user'', PyStr ''bob''), (KStr ''_hidden'', PyInt 1),
            (KStr ''message'', PyStr ''hello'')]) []) (KStr ''_hidden'') = None"
proof -
  let ?self = "example_formatter ''%(levelname)s %(message)s''"
  let ?ev = "example_record (PyStr ''hello'') PyNone PyNone
               [(KStr ''user'', PyStr ''bob''), (KStr ''_hidden'', PyInt 1)]"
  let ?fin = "example_record (PyStr ''hello'') PyNone PyNone
           [(KStr ''user'', PyStr ''bob''), (KStr ''_hidden'', PyInt 1),
            (KStr ''message'', PyStr ''hello'')]"
  have init: "JsonFormatter_init example_framework (example_kwargs ''%(levelname)s %(message)s'') =
     Inr ?self"
    by (simp add: init_example validation_defs)
  have wf: "wf_record ?ev"
    by (simp add: wf_record_def example_defs getattr_def)
  have st: "format_state example_framework ?self ?ev = ((?fin, []), None)"
    by (simp add: example_defs format_defs)
  have out: "build_log_record ?self ?fin [] =
       [(KStr ''levelname'', PyStr ''INFO''), (KStr ''message'', PyStr ''hello''),
        (KStr ''user'', PyStr ''bob'')]"
    by (simp add: example_defs build_log_record_def process_log_record_def add_fields_def
        required_and_payload_def merge_record_extra_def dict_update_def dict_of_pairs_def
        RESERVED_ATTR_HASH_def RESERVED_ATTRS_def key_in_def dict_contains_def
        hasattr_startswith_def key_startswith_def dict_get_def newline_def)
  from extras_merged_unless_reserved [OF init wf st, of "KStr ''_hidden''"]
  have "map_of (build_log_record ?self ?fin []) (KStr ''_hidden'') = None"
    by (simp add: out)
  with init wf st out show ?thesis by simp
qed

lemma getattr_cong_map_of: "map_of r (KStr n) = map_of r' (KStr n) \<Longrightarrow> getattr r n = getattr r' n"
  by (simp add: getattr_def)

lemma format_state_eq:
  assumes fm: "format_message fw r0 = (r1, Inr (md0, al))"
    and ei: "getattr r0 ''exc_info'' = Inr ei"
    and et: "getattr r0 ''exc_text'' = Inr et"
  shows "format_state fw self r0 =
     (let exc = KStr ''exc_info'';
          st1 = (if truthy ei \<and> \<not> truthy (dict_get md0 exc)
                 then message_dict_set al (format_asctime fw self r1, md0) exc
                        (PyStr (formatException fw ei))
                 else (format_asctime fw self r1, md0))
      in (if \<not> truthy (dict_get (snd st1) exc) \<and> truthy et
          then message_dict_set al st1 exc et else st1, None))"
proof -
  have "getattr (format_asctime fw self r1) ''exc_info'' = getattr r0 ''exc_info''"
    by (rule getattr_cong_map_of)
       (simp add: format_asctime_frame format_message_frame(1) [OF fm])
  moreover have "getattr (format_asctime fw self r1) ''exc_text'' = getattr r0 ''exc_text''"
    by (rule getattr_cong_map_of)
       (simp add: format_asctime_frame format_message_frame(1) [OF fm])
  ultimately show ?thesis
    using ei et by (simp add: format_state_def fm format_exc_info_result)
qed

lemma build_log_record_lookup:
  assumes init: "JsonFormatter_init fw kw = Inr self"
    and wf: "wf_record r0"
    and st: "format_state fw self r0 = ((r, md), None)"
  shows "map_of (build_log_record self r md) k =
           (if k \<in> fst ` set r0 \<and> k \<notin> KStr ` set (required_fields self)
               \<and> k \<notin> KStr ` set RESERVED_ATTRS \<and> \<not> key_startswith k ''_''
            then map_of r0 k
            else map_of (required_and_payload self [] r md) k)"
proof -
  have dist: "distinct (map fst r)"
    using format_state_frame(3) [OF st wf] by simp
  have res: "KStr ` {''msg'', ''message'', ''asctime''} \<subseteq> KStr ` set RESERVED_ATTRS"
    by (simp add: RESERVED_ATTRS_def)
  have keys: "k \<notin> KStr ` set RESERVED_ATTRS \<Longrightarrow> (k \<in> fst ` set r) = (k \<in> fst ` set r0)"
    using format_state_frame(2) [OF st] res by (auto simp: RESERVED_ATTRS_def)
  have vals: "k \<notin> KStr ` set RESERVED_ATTRS \<Longrightarrow> map_of r k = map_of r0 k"
    using format_state_frame(1) [OF st, of k] res by blast
  have merge: "mergeable (skip_fields self) k =
          (k \<notin> KStr ` set (required_fields self) \<and> k \<notin> KStr ` set RESERVED_ATTRS
           \<and> \<not> key_startswith k ''_'')"
    by (auto simp: mergeable_def init_key_in [OF init])
  show ?thesis
    unfolding map_of_build_log_record [OF dist] merge
    using keys vals by auto
qed

text \<open>
  Claim C5, as the code has it. When the message payload defines a key, the value in the
  final output is the payload's, also when the key is a required field; but when the key
  is the name of an attribute of the event that is merged as an extra (not a required
  field, not reserved, no underscore in front), the value of the attribute replaces the
  payload's.
\<close>

theorem payload_precedence:
  assumes init: "JsonFormatter_init fw kw = Inr self"
    and wf: "wf_record r0"
    and st: "format_state fw self r0 = ((r, md), None)"
    and pay: "map_of md k = Some v"
  shows "map_of (build_log_record self r md) k =
           (if k \<in> fst ` set r0 \<and> k \<notin> KStr ` set (required_fields self)
               \<and> k \<notin> KStr ` set RESERVED_ATTRS \<and> \<not> key_startswith k ''_''
            then map_of r0 k
            else Some v)"
proof -
  have "distinct (map fst md)"
    using format_state_frame(3) [OF st wf] by simp
  then have "map_of (required_and_payload self [] r md) k = Some v"
    using pay by (simp add: map_of_required_and_payload)
  then show ?thesis
    by (simp add: build_log_record_lookup [OF init wf st])
qed

lemmas build_defs = build_log_record_def process_log_record_def add_fields_def
  required_and_payload_def merge_record_extra_def dict_update_def dict_of_pairs_def
  RESERVED_ATTR_HASH_def RESERVED_ATTRS_def key_in_def dict_contains_def
  hasattr_startswith_def key_startswith_def dict_get_def newline_def

lemmas json_defs = jsonify_log_record_def json_object_def json_array_def json_key_def
  encode_basestring_ascii_def json_escape_char_def str_int_def digit_char_def

theorem payload_overridden_by_extra:
  \<open>snd (format example_framework (example_formatter ''%(message)s'')
         (example_record (PyDict [(KStr ''user'', PyStr ''alice'')]) PyNone PyNone
            [(KStr ''user'', PyStr ''bob'')])) =
     Inr ''{"message": null, "user": "bob"}''\<close>
  by (simp add: format_def example_defs format_defs build_defs json_defs)

theorem payload_precedence_witness:
  "JsonFormatter_init example_framework (example_kwargs ''%(message)s'') =
     Inr (example_formatter ''%(message)s'')
   \<and> wf_record (example_record (PyDict [(KStr ''user'', PyStr ''alice''),
                                        (KStr ''message'', PyStr ''hi'')]) PyNone PyNone
                   [(KStr ''user'', PyStr ''bob'')])
   \<and> format_state example_framework (example_formatter ''%(message)s'')
        (example_record (PyDict [(KStr ''user'', PyStr ''alice''),
                                 (KStr ''message'', PyStr ''hi'')]) PyNone PyNone
           [(KStr ''user'', PyStr ''bob'')]) =
       ((example_record (PyDict [(KStr ''user'', PyStr ''alice''),
                                 (KStr ''message'', PyStr ''hi'')]) PyNone PyNone
           [(KStr ''user'', PyStr ''bob''), (KStr ''message'', PyNone)],
         [(KStr ''user'', PyStr ''alice''), (KStr ''message'', PyStr ''hi'')]), None)
   \<and> map_of (build_log_record (example_formatter ''%(message)s'')
        (example_record (PyDict [(KStr ''user'', PyStr ''alice''),
                                 (KStr ''message'', PyStr ''hi'')]) PyNone PyNone
           [(KStr ''user'', PyStr ''bob''), (KStr ''message'', PyNone)])
        [(KStr ''user'', PyStr ''alice''), (KStr ''message'', PyStr ''hi'')])
        (KStr ''message'') = Some (PyStr ''hi'')
   \<and> map_of (build_log_record (example_formatter ''%(message)s'')
        (example_record (PyDict [(KStr ''user'', PyStr ''alice''),
                                 (KStr ''message'', PyStr ''hi'')]) PyNone PyNone
           [(KStr ''user'', PyStr ''bob''), (KStr ''message'', PyNone)])
        [(KStr ''user'', PyStr ''alice''), (KStr ''message'', PyStr ''hi'')])
        (KStr ''user'') = Some (PyStr ''bob'')"
proof -
  let ?self = "example_formatter ''%(message)s''"
  let ?pay = "[(KStr ''user'', PyStr ''alice''), (KStr ''message'', PyStr ''hi'')]"
  let ?ev = "example_record (PyDict ?pay) PyNone PyNone [(KStr ''user'', PyStr ''bob'')]"
  let ?fin = "example_record (PyDict ?pay) PyNone PyNone
                [(KStr ''user'', PyStr ''bob''), (KStr ''message'', PyNone)]"
  have init: "JsonFormatter_init example_framework (example_kwargs ''%(message)s'') = Inr ?self"
    by (simp add: init_example validation_defs)
  have wf: "wf_record ?ev"
    by (simp add: wf_record_def example_defs getattr_def)
  have st: "format_state example_framework ?self ?ev = ((?fin, ?pay), None)"
    by (simp add: example_defs format_defs)
  have a: "map_of (build_log_record ?self ?fin ?pay) (KStr ''message'') = Some (PyStr ''hi'')"
    using payload_precedence [OF init wf st, of "KStr ''message''" "PyStr ''hi''"]
    by (simp add: example_defs newline_def)
  have b: "map_of (build_log_record ?self ?fin ?pay) (KStr ''user'') = Some (PyStr ''bob'')"
    using payload_precedence [OF init wf st, of "KStr ''user''" "PyStr ''alice''"]
    by (simp add: example_defs newline_def RESERVED_ATTRS_def key_startswith_def)
  from init wf st a b show ?thesis by simp
qed

lemma format_state_dict_payload:
  assumes msg: "getattr r0 ''msg'' = Inr (PyDict d)"
    and st: "format_state fw self r0 = ((r, md), None)"
  shows "getattr r ''message'' = Inr PyNone"
    and "k \<noteq> KStr ''exc_info'' \<Longrightarrow> map_of md k = map_of d k"
proof -
  have fm: "format_message fw r0 = (setattr r0 ''message'' PyNone, Inr (d, True))"
    using msg by (simp add: format_message_dict)
  with st have fe: "format_exc_info fw True
      (format_asctime fw self (setattr r0 ''message'' PyNone), d) = ((r, md), None)"
    by (simp add: format_state_def)
  have "map_of r (KStr ''message'') = Some PyNone"
    using format_exc_info_props(1) [OF fe, of "KStr ''message''"]
    by (simp add: format_asctime_frame map_of_setattr)
  then show "getattr r ''message'' = Inr PyNone"
    by (simp add: getattr_def)
  from format_exc_info_updates [OF fe] obtain ups where
    ups: "(r, md) = fold (\<lambda>v s. message_dict_set True s (KStr ''exc_info'') v) ups
                      (format_asctime fw self (setattr r0 ''message'' PyNone), d)" ..
  have frame: "k \<noteq> KStr ''exc_info'' \<Longrightarrow>
      map_of (snd (fold (\<lambda>v s. message_dict_set True s (KStr ''exc_info'') v) ups st0)) k
        = map_of (snd st0) k" for st0
    by (induction ups arbitrary: st0) (simp_all add: message_dict_set_snd map_of_dict_set)
  show "k \<noteq> KStr ''exc_info'' \<Longrightarrow> map_of md k = map_of d k"
    using frame [of "(format_asctime fw self (setattr r0 ''message'' PyNone), d)"] ups [symmetric]
    by simp
qed

lemma getattr_format_asctime:
  "getattr (format_asctime fw self r) n =
     (if n = ''asctime'' \<and> ''asctime'' \<in> set (required_fields self)
      then Inr (PyStr (formatTime fw r (datefmt self))) else getattr r n)"
  by (simp add: format_asctime_def getattr_setattr)

lemma getattr_message_dict_set:
  "getattr (fst (message_dict_set al st k v)) n =
     (if al \<and> n = ''msg'' then Inr (PyDict (dict_set (snd st) k v)) else getattr (fst st) n)"
  by (simp add: message_dict_set_fst getattr_setattr)

lemma fst_format: "fst (format fw self r0) = fst (fst (format_state fw self r0))"
  by (simp add: format_def split: prod.splits option.splits)

lemma exc_info_reserved: "KStr ''exc_info'' \<in> KStr ` set RESERVED_ATTRS"
  by (simp add: RESERVED_ATTRS_def)

lemma exc_info_output:
  assumes init: "JsonFormatter_init fw kw = Inr self"
    and wf: "wf_record r0"
    and st: "format_state fw self r0 = ((r, md), None)"
    and md: "map_of md (KStr ''exc_info'') = Some v"
  shows "map_of (build_log_record self r md) (KStr ''exc_info'') = Some v"
proof -
  have "distinct (map fst md)"
    using format_state_frame(3) [OF st wf] by simp
  then have "map_of (required_and_payload self [] r md) (KStr ''exc_info'') = Some v"
    using md by (simp add: map_of_required_and_payload)
  then show ?thesis
    using exc_info_reserved by (simp add: build_log_record_lookup [OF init wf st])
qed

lemma truthy_dict_get_Some: "truthy (dict_get d k) \<Longrightarrow> map_of d k = Some (dict_get d k)"
  by (auto simp: dict_get_def split: option.splits)

text \<open>
  Claim C8, as the code has it. Let the event have its \<^verbatim>\<open>exc_info\<close> and
  \<^verbatim>\<open>exc_text\<close> attributes and the payload be as the message gives it. When the
  payload has no \<^verbatim>\<open>exc_info\<close> entry that counts as true: if exception info is
  present, the rendered text (when it is not empty) is stored under \<^verbatim>\<open>exc_info\<close> in
  the payload and is the \<^verbatim>\<open>exc_info\<close> of the output, a single string; if none
  is present and the framework left a cached text, the cached text is. When the payload
  has an \<^verbatim>\<open>exc_info\<close> entry of its own that counts as true, the payload is left as it
  is and the output holds that entry as given, whatever its shape.
\<close>

theorem exc_info_rendering:
  assumes init: "JsonFormatter_init fw kw = Inr self"
    and wf: "wf_record r0"
    and fm: "format_message fw r0 = (r1, Inr (md0, al))"
    and ei: "getattr r0 ''exc_info'' = Inr ei"
    and et: "getattr r0 ''exc_text'' = Inr et"
  shows "\<exists>r md. format_state fw self r0 = ((r, md), None)
      \<and> (\<not> truthy (dict_get md0 (KStr ''exc_info'')) \<and> truthy ei
           \<and> formatException fw ei \<noteq> [] \<longrightarrow>
             md = dict_set md0 (KStr ''exc_info'') (PyStr (formatException fw ei))
             \<and> map_of (build_log_record self r md) (KStr ''exc_info'') =
                 Some (PyStr (formatException fw ei)))
      \<and> (\<not> truthy (dict_get md0 (KStr ''exc_info'')) \<and> \<not> truthy ei \<and> truthy et \<longrightarrow>
             md = dict_set md0 (KStr ''exc_info'') et
             \<and> map_of (build_log_record self r md) (KStr ''exc_info'') = Some et)
      \<and> (truthy (dict_get md0 (KStr ''exc_info'')) \<longrightarrow>
             md = md0
             \<and> map_of (build_log_record self r md) (KStr ''exc_info'') =
                 Some (dict_get md0 (KStr ''exc_info'')))"
proof -
  obtain r md where st: "format_state fw self r0 = ((r, md), None)"
    using format_state_eq [OF fm ei et, of self]
    by (metis prod.collapse)
  note eq = format_state_eq [OF fm ei et, of self, unfolded st]
  have out: "map_of md (KStr ''exc_info'') = Some v \<Longrightarrow>
      map_of (build_log_record self r md) (KStr ''exc_info'') = Some v" for v
    by (rule exc_info_output [OF init wf st])
  have a: "md = dict_set md0 (KStr ''exc_info'') (PyStr (formatException fw ei))"
    if "\<not> truthy (dict_get md0 (KStr ''exc_info''))" "truthy ei" "formatException fw ei \<noteq> []"
    using eq that by (simp add: Let_def message_dict_set_snd dict_get_dict_set prod_eq_iff)
  have b: "md = dict_set md0 (KStr ''exc_info'') et"
    if "\<not> truthy (dict_get md0 (KStr ''exc_info''))" "\<not> truthy ei" "truthy et"
    using eq that by (simp add: Let_def message_dict_set_snd prod_eq_iff)
  have c: "md = md0" if "truthy (dict_get md0 (KStr ''exc_info''))"
    using eq that by (simp add: Let_def prod_eq_iff)
  show ?thesis
  proof (intro exI conjI impI)
    show "format_state fw self r0 = ((r, md), None)" by (rule st)
  next
    assume h: "\<not> truthy (dict_get md0 (KStr ''exc_info'')) \<and> truthy ei
           \<and> formatException fw ei \<noteq> []"
    then show m: "md = dict_set md0 (KStr ''exc_info'') (PyStr (formatException fw ei))"
      by (simp add: a)
    show "map_of (build_log_record self r md) (KStr ''exc_info'') =
                 Some (PyStr (formatException fw ei))"
      by (rule out) (simp add: m map_of_dict_set)
  next
    assume h: "\<not> truthy (dict_get md0 (KStr ''exc_info'')) \<and> \<not> truthy ei \<and> truthy et"
    then show m: "md = dict_set md0 (KStr ''exc_info'') et"
      by (simp add: b)
    show "map_of (build_log_record self r md) (KStr ''exc_info'') = Some et"
      by (rule out) (simp add: m map_of_dict_set)
  next
    assume h: "truthy (dict_get md0 (KStr ''exc_info''))"
    then show m: "md = md0"
      by (simp add: c)
    show "map_of (build_log_record self r md) (KStr ''exc_info'') =
                 Some (dict_get md0 (KStr ''exc_info''))"
      by (rule out) (simp add: m truthy_dict_get_Some [OF h])
  qed
qed

theorem exc_info_nested_from_payload:
  \<open>snd (format example_framework (example_formatter ''%(message)s'')
         (example_record (PyDict [(KStr ''exc_info'', PyDict [(KStr ''code'', PyInt 1)])])
            (PyTuple [PyObject ''ValueError'', PyException ''boom'', PyTraceback ''tb''])
            PyNone [])) =
     Inr ''{"message": null, "exc_info": {"code": 1}}''\<close>
  by (simp add: format_def example_defs format_defs build_defs json_defs nat_digits.simps)

theorem exc_info_rendering_witness:
  "JsonFormatter_init example_framework (example_kwargs ''%(message)s'') =
     Inr (example_formatter ''%(message)s'')
   \<and> wf_record (example_record (PyStr ''failed'')
        (PyTuple [PyObject ''ValueError'', PyException ''boom'', PyTraceback ''tb'']) PyNone [])
   \<and> format_message example_framework (example_record (PyStr ''failed'')
        (PyTuple [PyObject ''ValueError'', PyException ''boom'', PyTraceback ''tb'']) PyNone []) =
       (example_record (PyStr ''failed'')
          (PyTuple [PyObject ''ValueError'', PyException ''boom'', PyTraceback ''tb'']) PyNone
          [(KStr ''message'', PyStr ''failed'')], Inr ([], False))
   \<and> getattr (example_record (PyStr ''failed'')
        (PyTuple [PyObject ''ValueError'', PyException ''boom'', PyTraceback ''tb'']) PyNone [])
        ''exc_info'' =
       Inr (PyTuple [PyObject ''ValueError'', PyException ''boom'', PyTraceback ''tb''])
   \<and> getattr (example_record (PyStr ''failed'')
        (PyTuple [PyObject ''ValueError'', PyException ''boom'', PyTraceback ''tb'']) PyNone [])
        ''exc_text'' = Inr PyNone
   \<and> (\<exists>r md. format_state example_framework (example_formatter ''%(message)s'')
          (example_record (PyStr ''failed'')
             (PyTuple [PyObject ''ValueError'', PyException ''boom'', PyTraceback ''tb''])
             PyNone []) = ((r, md), None)
        \<and> md = [(KStr ''exc_info'', PyStr ''Traceback (most recent call last): ...'')]
        \<and> map_of (build_log_record (example_formatter ''%(message)s'') r md) (KStr ''exc_info'') =
            Some (PyStr ''Traceback (most recent call last): ...''))"
proof -
  let ?self = "example_formatter ''%(message)s''"
  let ?ei = "PyTuple [PyObject ''ValueError'', PyException ''boom'', PyTraceback ''tb'']"
  let ?ev = "example_record (PyStr ''failed'') ?ei PyNone []"
  let ?mid = "example_record (PyStr ''failed'') ?ei PyNone [(KStr ''message'', PyStr ''failed'')]"
  have init: "JsonFormatter_init example_framework (example_kwargs ''%(message)s'') = Inr ?self"
    by (simp add: init_example validation_defs)
  have wf: "wf_record ?ev"
    by (simp add: wf_record_def example_defs getattr_def)
  have fm: "format_message example_framework ?ev = (?mid, Inr ([], False))"
    by (simp add: example_defs format_defs)
  have ei: "getattr ?ev ''exc_info'' = Inr ?ei"
    by (simp add: example_defs getattr_def)
  have et: "getattr ?ev ''exc_text'' = Inr PyNone"
    by (simp add: example_defs getattr_def)
  have rendered: "formatException example_framework ?ei = ''Traceback (most recent call last): ...''"
    by (simp add: example_framework_def)
  from exc_info_rendering [OF init wf fm ei et]
  obtain r md where st: "format_state example_framework ?self ?ev = ((r, md), None)"
    and a: "\<not> truthy (dict_get [] (KStr ''exc_info'')) \<and> truthy ?ei
           \<and> formatException example_framework ?ei \<noteq> [] \<longrightarrow>
             md = dict_set [] (KStr ''exc_info'') (PyStr (formatException example_framework ?ei))
             \<and> map_of (build_log_record ?self r md) (KStr ''exc_info'') =
                 Some (PyStr (formatException example_framework ?ei))"
    by blast
  have "\<not> truthy (dict_get [] (KStr ''exc_info'')) \<and> truthy ?ei
           \<and> formatException example_framework ?ei \<noteq> []"
    by (simp add: dict_get_def rendered)
  with a have "md = dict_set [] (KStr ''exc_info'') (PyStr (formatException example_framework ?ei))
             \<and> map_of (build_log_record ?self r md) (KStr ''exc_info'') =
                 Some (PyStr (formatException example_framework ?ei))"
    by (rule mp)
  then have "md = [(KStr ''exc_info'', PyStr ''Traceback (most recent call last): ...'')]
        \<and> map_of (build_log_record ?self r md) (KStr ''exc_info'') =
            Some (PyStr ''Traceback (most recent call last): ...'')"
    by (auto simp: rendered)
  with st have "\<exists>r md. format_state example_framework ?self ?ev = ((r, md), None)
        \<and> md = [(KStr ''exc_info'', PyStr ''Traceback (most recent call last): ...'')]
        \<and> map_of (build_log_record ?self r md) (KStr ''exc_info'') =
            Some (PyStr ''Traceback (most recent call last): ...'')"
    by blast
  with init wf fm ei et show ?thesis by simp
qed

lemma format_final_record:
  assumes fm: "format_message fw r0 = (r1, Inr (md0, al))"
    and ei: "getattr r0 ''exc_info'' = Inr ei"
    and et: "getattr r0 ''exc_text'' = Inr et"
  shows "fst (format fw self r0) =
     fst (let exc = KStr ''exc_info'';
              st1 = (if truthy ei \<and> \<not> truthy (dict_get md0 exc)
                     then message_dict_set al (format_asctime fw self r1, md0) exc
                            (PyStr (formatException fw ei))
                     else (format_asctime fw self r1, md0))
          in if \<not> truthy (dict_get (snd st1) exc) \<and> truthy et
             then message_dict_set al st1 exc et else st1)"
  by (simp add: fst_format format_state_eq [OF fm ei et] Let_def)

text \<open>
  Claim C10. \<open>format\<close> changes the event it is given. It sets the \<^verbatim>\<open>message\<close>
  attribute (to \<^verbatim>\<open>None\<close> for a mapping, to the rendered message otherwise) and, when
  \<^verbatim>\<open>asctime\<close> is a required field, the \<^verbatim>\<open>asctime\<close> attribute. When the message is
  a mapping, the \<^verbatim>\<open>exc_info\<close> entry it stores goes into the mapping the event holds
  as \<^verbatim>\<open>msg\<close>, the caller's own: the rendered exception text, or the cached text
  when no exception info is present. A message that is no mapping is left as it is.
\<close>

theorem format_mutates_event:
  assumes msg: "getattr r0 ''msg'' = Inr m"
    and ei: "getattr r0 ''exc_info'' = Inr ei"
    and et: "getattr r0 ''exc_text'' = Inr et"
  shows "(\<forall>d. m = PyDict d \<longrightarrow>
            getattr (fst (format fw self r0)) ''message'' = Inr PyNone
            \<and> (''asctime'' \<in> set (required_fields self) \<longrightarrow>
                 getattr (fst (format fw self r0)) ''asctime'' =
                   Inr (PyStr (formatTime fw (setattr r0 ''message'' PyNone) (datefmt self))))
            \<and> (\<not> truthy (dict_get d (KStr ''exc_info'')) \<and> truthy ei
                 \<and> formatException fw ei \<noteq> [] \<longrightarrow>
                 getattr (fst (format fw self r0)) ''msg'' =
                   Inr (PyDict (dict_set d (KStr ''exc_info'') (PyStr (formatException fw ei)))))
            \<and> (\<not> truthy (dict_get d (KStr ''exc_info'')) \<and> \<not> truthy ei \<and> truthy et \<longrightarrow>
                 getattr (fst (format fw self r0)) ''msg'' =
                   Inr (PyDict (dict_set d (KStr ''exc_info'') et))))
       \<and> (\<forall>s. isinstance_dict m = None \<and> getMessage fw r0 = Inr s \<longrightarrow>
            getattr (fst (format fw self r0)) ''message'' = Inr (PyStr s)
            \<and> (''asctime'' \<in> set (required_fields self) \<longrightarrow>
                 getattr (fst (format fw self r0)) ''asctime'' =
                   Inr (PyStr (formatTime fw (setattr r0 ''message'' (PyStr s)) (datefmt self))))
            \<and> getattr (fst (format fw self r0)) ''msg'' = Inr m)"
proof (intro conjI allI impI)
  fix d
  assume m: "m = PyDict d"
  then have fm: "format_message fw r0 = (setattr r0 ''message'' PyNone, Inr (d, True))"
    using msg by (simp add: format_message_dict)
  note fin = format_final_record [OF fm ei et, of self]
  show "getattr (fst (format fw self r0)) ''message'' = Inr PyNone"
    by (simp add: fin Let_def getattr_message_dict_set getattr_format_asctime getattr_setattr)
  show "getattr (fst (format fw self r0)) ''asctime'' =
          Inr (PyStr (formatTime fw (setattr r0 ''message'' PyNone) (datefmt self)))"
    if "''asctime'' \<in> set (required_fields self)"
    using that
    by (simp add: fin Let_def getattr_message_dict_set getattr_format_asctime)
  show "getattr (fst (format fw self r0)) ''msg'' =
          Inr (PyDict (dict_set d (KStr ''exc_info'') (PyStr (formatException fw ei))))"
    if "\<not> truthy (dict_get d (KStr ''exc_info'')) \<and> truthy ei \<and> formatException fw ei \<noteq> []"
    using that
    by (simp add: fin Let_def getattr_message_dict_set message_dict_set_snd dict_get_dict_set)
  show "getattr (fst (format fw self r0)) ''msg'' =
          Inr (PyDict (dict_set d (KStr ''exc_info'') et))"
    if "\<not> truthy (dict_get d (KStr ''exc_info'')) \<and> \<not> truthy ei \<and> truthy et"
    using that
    by (simp add: fin Let_def getattr_message_dict_set)
next
  fix s
  assume a: "isinstance_dict m = None \<and> getMessage fw r0 = Inr s"
  then have fm: "format_message fw r0 = (setattr r0 ''message'' (PyStr s), Inr ([], False))"
    using msg by (simp add: format_message_plain)
  note fin = format_final_record [OF fm ei et, of self]
  show "getattr (fst (format fw self r0)) ''message'' = Inr (PyStr s)"
    by (simp add: fin Let_def getattr_message_dict_set getattr_format_asctime getattr_setattr)
  show "getattr (fst (format fw self r0)) ''asctime'' =
          Inr (PyStr (formatTime fw (setattr r0 ''message'' (PyStr s)) (datefmt self)))"
    if "''asctime'' \<in> set (required_fields self)"
    using that
    by (simp add: fin Let_def getattr_message_dict_set getattr_format_asctime)
  show "getattr (fst (format fw self r0)) ''msg'' = Inr m"
    using msg
    by (simp add: fin Let_def getattr_message_dict_set getattr_format_asctime getattr_setattr)
qed

theorem format_mutates_event_witness:
  "getattr (example_record (PyDict [(KStr ''user'', PyStr ''alice'')])
        (PyTuple [PyObject ''ValueError'', PyException ''boom'', PyTraceback ''tb'']) PyNone [])
      ''msg'' = Inr (PyDict [(KStr ''user'', PyStr ''alice'')])
   \<and> getattr (example_record (PyDict [(KStr ''user'', PyStr ''alice'')])
        (PyTuple [PyObject ''ValueError'', PyException ''boom'', PyTraceback ''tb'']) PyNone [])
      ''exc_info'' =
       Inr (PyTuple [PyObject ''ValueError'', PyException ''boom'', PyTraceback ''tb''])
   \<and> getattr (example_record (PyDict [(KStr ''user'', PyStr ''alice'')])
        (PyTuple [PyObject ''ValueError'', PyException ''boom'', PyTraceback ''tb'']) PyNone [])
      ''exc_text'' = Inr PyNone
   \<and> getattr (fst (format example_framework (example_formatter ''%(asctime)s %(message)s'')
        (example_record (PyDict [(KStr ''user'', PyStr ''alice'')])
           (PyTuple [PyObject ''ValueError'', PyException ''boom'', PyTraceback ''tb''])
           PyNone []))) ''message'' = Inr PyNone
   \<and> getattr (fst (format example_framework (example_formatter ''%(asctime)s %(message)s'')
        (example_record (PyDict [(KStr ''user'', PyStr ''alice'')])
           (PyTuple [PyObject ''ValueError'', PyException ''boom'', PyTraceback ''tb''])
           PyNone []))) ''asctime'' = Inr (PyStr ''2020-03-14 12:00:00,000'')
   \<and> getattr (fst (format example_framework (example_formatter ''%(asctime)s %(message)s'')
        (example_record (PyDict [(KStr ''user'', PyStr ''alice'')])
           (PyTuple [PyObject ''ValueError'', PyException ''boom'', PyTraceback ''tb''])
           PyNone []))) ''msg'' =
       Inr (PyDict [(KStr ''user'', PyStr ''alice''),
                    (KStr ''exc_info'', PyStr ''Traceback (most recent call last): ...'')])"
proof -
  let ?self = "example_formatter ''%(asctime)s %(message)s''"
  let ?ei = "PyTuple [PyObject ''ValueError'', PyException ''boom'', PyTraceback ''tb'']"
  let ?pay = "[(KStr ''user'', PyStr ''alice'')]"
  let ?ev = "example_record (PyDict ?pay) ?ei PyNone []"
  have msg: "getattr ?ev ''msg'' = Inr (PyDict ?pay)"
    by (simp add: example_defs getattr_def)
  have ei: "getattr ?ev ''exc_info'' = Inr ?ei"
    by (simp add: example_defs getattr_def)
  have et: "getattr ?ev ''exc_text'' = Inr PyNone"
    by (simp add: example_defs getattr_def)
  note gen = format_mutates_event [OF msg ei et, of example_framework ?self,
      THEN conjunct1, rule_format, OF refl]
  have req: "''asctime'' \<in> set (required_fields ?self)"
    by (simp add: example_formatter_def newline_def)
  have cond: "\<not> truthy (dict_get ?pay (KStr ''exc_info'')) \<and> truthy ?ei
      \<and> formatException example_framework ?ei \<noteq> []"
    by (simp add: dict_get_def example_framework_def)
  have a: "getattr (fst (format example_framework ?self ?ev)) ''message'' = Inr PyNone"
    by (rule gen [THEN conjunct1])
  have b: "getattr (fst (format example_framework ?self ?ev)) ''asctime'' =
      Inr (PyStr ''2020-03-14 12:00:00,000'')"
    using gen [THEN conjunct2, THEN conjunct1, rule_format, OF req]
    by (simp add: example_framework_def)
  have c: "getattr (fst (format example_framework ?self ?ev)) ''msg'' =
      Inr (PyDict [(KStr ''user'', PyStr ''alice''),
                   (KStr ''exc_info'', PyStr ''Traceback (most recent call last): ...'')])"
    using gen [THEN conjunct2, THEN conjunct2, THEN conjunct1, rule_format, OF cond]
    by (simp add: example_framework_def)
  from msg ei et a b c show ?thesis by simp
qed

text \<open>
  Claim C1 says that \<open>format\<close> serializes with the serializer given at construction, or
  else with the default encoder and its fallback for values without a native form.
  The code does neither. The constructor sets its serializer to \<^verbatim>\<open>json.dumps\<close> and
  hands a \<^verbatim>\<open>json_serializer\<close> keyword on to the framework's constructor, which
  refuses it. It keeps the fallback as \<^verbatim>\<open>json_default\<close>, which would turn a date into
  its ISO text, but \<open>jsonify_log_record\<close> calls the serializer with the mapping alone:
  an event with a date among its extras is not serialized, \<open>format\<close> raises
  \<^verbatim>\<open>TypeError\<close>.
\<close>

theorem format_never_applies_json_default:
  "JsonFormatter_init example_framework
      ((example_kwargs ''%(message)s'') \<lparr> kw_json_serializer := Some (\<lambda>obj. Inr ''{}'') \<rparr>) =
     Inl TypeError
   \<and> JsonFormatter_init example_framework (example_kwargs ''%(message)s'') =
       Inr (example_formatter ''%(message)s'')
   \<and> json_default (example_formatter ''%(message)s'') =
       Some (default_json_handler example_framework)
   \<and> default_json_handler example_framework (PyDateTime ''2020-03-14T12:00:00'') =
       PyStr ''2020-03-14T12:00:00''
   \<and> snd (format example_framework (example_formatter ''%(message)s'')
         (example_record (PyStr ''hello'') PyNone PyNone
            [(KStr ''when'', PyDateTime ''2020-03-14T12:00:00'')])) = Inl TypeError"
proof (intro conjI)
  show "JsonFormatter_init example_framework
      ((example_kwargs ''%(message)s'') \<lparr> kw_json_serializer := Some (\<lambda>obj. Inr ''{}'') \<rparr>) =
     Inl TypeError"
    by (simp add: JsonFormatter_init_def Formatter_init_def example_kwargs_def)
  show "JsonFormatter_init example_framework (example_kwargs ''%(message)s'') =
       Inr (example_formatter ''%(message)s'')"
    by (simp add: init_example validation_defs)
  show "json_default (example_formatter ''%(message)s'') =
       Some (default_json_handler example_framework)"
    by (simp add: example_formatter_def)
  show "default_json_handler example_framework (PyDateTime ''2020-03-14T12:00:00'') =
       PyStr ''2020-03-14T12:00:00''"
    by (simp add: default_json_handler_def)
  show "snd (format example_framework (example_formatter ''%(message)s'')
         (example_record (PyStr ''hello'') PyNone PyNone
            [(KStr ''when'', PyDateTime ''2020-03-14T12:00:00'')])) = Inl TypeError"
    by (simp add: format_def example_defs format_defs build_defs json_defs)
qed

lemmas calendar_defs = next_rotate_at_def add_one_day_def days_in_month_def is_leap_def
  timetuple_def mktime_def ymd2ord_def days_before_year_def days_before_month_def
  strftime_ymd_def zero_pad_def nat_digits.simps digit_char_def log_today_def

lemma open_create_exists: "files fs path \<noteq> None \<Longrightarrow> open_create fs path = Inr fs"
  by (simp add: open_create_def os_open_creat_excl_def)

lemma open_create_new:
  "files fs path = None \<Longrightarrow> create_fault fs path = None \<Longrightarrow>
   open_create fs path = Inr (fs \<lparr> files := (files fs)(path \<mapsto> []) \<rparr>)"
  by (simp add: open_create_def os_open_creat_excl_def)

lemma handler_open_ok:
  assumes "files fs (log_today h now) \<noteq> None \<or> create_fault fs (log_today h now) = None"
    and "open_fault fs (log_today h now) = None"
  shows "handler_open h fs now =
     ((h \<lparr> baseFilename := log_today h now \<rparr>,
       if files fs (log_today h now) \<noteq> None then fs
       else fs \<lparr> files := (files fs)(log_today h now \<mapsto> []) \<rparr>),
      Inr (log_today h now))"
proof (cases "files fs (log_today h now) = None")
  case True
  with assms show ?thesis
    by (simp add: handler_open_def open_create_new open_stream_def open_append_def)
next
  case False
  with assms show ?thesis
    by (simp add: handler_open_def open_create_exists open_stream_def open_append_def)
qed

lemma stream_write_created:
  "files fs path = None \<Longrightarrow>
   stream_write (fs \<lparr> files := (files fs)(path \<mapsto> []) \<rparr>) path bytes = stream_write fs path bytes"
  by (simp add: stream_write_def)

lemma add_one_day_time:
  "add_one_day dt = Inr nd \<Longrightarrow>
   hour nd = hour dt \<and> minute nd = minute dt \<and> second nd = second dt
   \<and> microsecond nd = microsecond dt"
  by (auto simp: add_one_day_def split: if_splits)

text \<open>
  Claim C4. When the exclusive creation of the day's file fails because the file is
  there, \<open>_open\<close> goes on and opens the path for appending; the stream it returns is on
  that path. When the creation fails for any other reason, \<open>_open\<close> raises that error,
  the file system is as before, and the error leaves \<open>emit\<close>, from a handler without a
  stream and from a handler that rotates.
\<close>

theorem open_error_handling:
  "(os_open_creat_excl fs (log_today h now) = Inl EEXIST \<longrightarrow>
      handler_open h fs now = open_stream h fs (log_today h now)
      \<and> (\<forall>fs1. open_append fs (log_today h now) = Inr fs1 \<longrightarrow>
            handler_open h fs now =
              ((h \<lparr> baseFilename := log_today h now \<rparr>, fs1), Inr (log_today h now))))
   \<and> (\<forall>e. os_open_creat_excl fs (log_today h now) = Inl e \<and> e \<noteq> EEXIST \<longrightarrow>
         handler_open h fs now = ((h, fs), Inl (OSError e))
         \<and> (stream h = None \<longrightarrow>
              FileHandler_emit h fs now formatted = ((h, fs), Some (OSError e)))
         \<and> (\<forall>(clk::clock) deadline.
               now_open clk = now \<and> time_time clk > rotate_at h
               \<and> next_rotate_at utcoffset (now_rotate clk) = Inr deadline \<longrightarrow>
                 emit utcoffset h fs clk formatted =
                   ((handler_close (h \<lparr> rotate_at := deadline \<rparr>), fs), Some (OSError e))))"
proof (intro conjI allI impI)
  assume ex: "os_open_creat_excl fs (log_today h now) = Inl EEXIST"
  then show a: "handler_open h fs now = open_stream h fs (log_today h now)"
    by (simp add: handler_open_def open_create_def)
  fix fs1
  assume "open_append fs (log_today h now) = Inr fs1"
  then show "handler_open h fs now =
              ((h \<lparr> baseFilename := log_today h now \<rparr>, fs1), Inr (log_today h now))"
    by (simp add: a open_stream_def)
next
  fix e
  assume e: "os_open_creat_excl fs (log_today h now) = Inl e \<and> e \<noteq> EEXIST"
  then show a: "handler_open h fs now = ((h, fs), Inl (OSError e))"
    by (simp add: handler_open_def open_create_def)
  {
    assume "stream h = None"
    then show "FileHandler_emit h fs now formatted = ((h, fs), Some (OSError e))"
      by (simp add: FileHandler_emit_def a)
  }
  fix clk :: clock and deadline
  assume c: "now_open clk = now \<and> time_time clk > rotate_at h
               \<and> next_rotate_at utcoffset (now_rotate clk) = Inr deadline"
  have "handler_open (handler_close (h \<lparr> rotate_at := deadline \<rparr>)) fs now =
          ((handler_close (h \<lparr> rotate_at := deadline \<rparr>), fs), Inl (OSError e))"
    using e by (simp add: handler_open_def open_create_def log_today_def handler_close_def)
  with c show "emit utcoffset h fs clk formatted =
                   ((handler_close (h \<lparr> rotate_at := deadline \<rparr>), fs), Some (OSError e))"
    by (simp add: emit_def FileHandler_emit_def handler_close_def)
qed

theorem open_error_handling_witness:
  "os_open_creat_excl (example_fs [''app.log.2020-03-14'' \<mapsto> ''old''])
      (log_today (example_handler None) (example_now 14 23)) = Inl EEXIST
   \<and> handler_open (example_handler None) (example_fs [''app.log.2020-03-14'' \<mapsto> ''old''])
        (example_now 14 23) =
       ((example_handler None, example_fs [''app.log.2020-03-14'' \<mapsto> ''old'']),
        Inr ''app.log.2020-03-14'')
   \<and> os_open_creat_excl ((example_fs Map.empty) \<lparr> create_fault := (\<lambda>p. Some EACCES) \<rparr>)
        (log_today (example_handler None) (example_now 14 23)) = Inl EACCES
   \<and> EACCES \<noteq> EEXIST
   \<and> handler_open (example_handler None)
        ((example_fs Map.empty) \<lparr> create_fault := (\<lambda>p. Some EACCES) \<rparr>) (example_now 14 23) =
       ((example_handler None, (example_fs Map.empty) \<lparr> create_fault := (\<lambda>p. Some EACCES) \<rparr>),
        Inl (OSError EACCES))
   \<and> FileHandler_emit (example_handler None)
        ((example_fs Map.empty) \<lparr> create_fault := (\<lambda>p. Some EACCES) \<rparr>) (example_now 14 23)
        (Inr ''hello'') =
       ((example_handler None, (example_fs Map.empty) \<lparr> create_fault := (\<lambda>p. Some EACCES) \<rparr>),
        Some (OSError EACCES))"
proof -
  let ?h = "example_handler None"
  let ?now = "example_now 14 23"
  let ?fs = "example_fs [''app.log.2020-03-14'' \<mapsto> ''old'']"
  let ?bad = "(example_fs Map.empty) \<lparr> create_fault := (\<lambda>p. Some EACCES) \<rparr>"
  have path: "log_today ?h ?now = ''app.log.2020-03-14''"
    by (simp add: calendar_defs example_now_def example_handler_def)
  have ex: "os_open_creat_excl ?fs (log_today ?h ?now) = Inl EEXIST"
    by (simp add: path os_open_creat_excl_def example_fs_def)
  have ap: "open_append ?fs (log_today ?h ?now) = Inr ?fs"
    by (simp add: path open_append_def example_fs_def)
  have a: "handler_open ?h ?fs ?now = ((?h, ?fs), Inr ''app.log.2020-03-14'')"
    using open_error_handling [of ?fs ?h ?now, THEN conjunct1, rule_format, OF ex,
        THEN conjunct2, rule_format, OF ap]
    by (simp add: path) (simp add: example_handler_def)
  have bad: "os_open_creat_excl ?bad (log_today ?h ?now) = Inl EACCES \<and> EACCES \<noteq> EEXIST"
    by (simp add: path os_open_creat_excl_def example_fs_def)
  note gen = open_error_handling [of ?bad ?h ?now "Inr ''hello''", THEN conjunct2, rule_format,
      OF bad]
  have b: "handler_open ?h ?bad ?now = ((?h, ?bad), Inl (OSError EACCES))"
    by (rule gen [THEN conjunct1])
  have nostream: "stream ?h = None"
    by (simp add: example_handler_def)
  have c: "FileHandler_emit ?h ?bad ?now (Inr ''hello'') = ((?h, ?bad), Some (OSError EACCES))"
    by (rule gen [THEN conjunct2, THEN conjunct1, rule_format, OF nostream])
  from ex a bad b c show ?thesis by simp
qed

text \<open>
  Claim C3. On a write attempt at a time not after the deadline the text goes to the
  stream the handler holds, and the handler is as before. At a time after the deadline
  the deadline becomes the local midnight that starts the day after the new reading of
  the clock, the stream is replaced by one on the file of the day, named by the base
  name, a dot and the local date, which is created when it is not there, and the text
  goes to that file.
\<close>

theorem emit_rotation:
  "(\<forall>s. stream h = Some s \<and> time_time (clk::clock) \<le> rotate_at h \<longrightarrow>
      emit utcoffset h fs clk (Inr msg) =
        ((h, stream_write fs s (msg @ [newline])), None))
   \<and> (\<forall>next_day path.
        time_time clk > rotate_at h
        \<and> add_one_day ((now_rotate clk)
              \<lparr> hour := 0, minute := 0, second := 0, microsecond := 0 \<rparr>) = Inr next_day
        \<and> path = filename h @ ''.'' @ strftime_ymd (now_open clk)
        \<and> (files fs path \<noteq> None \<or> create_fault fs path = None)
        \<and> open_fault fs path = None \<longrightarrow>
          emit utcoffset h fs clk (Inr msg) =
            ((h \<lparr> rotate_at := mktime utcoffset (timetuple next_day),
                  baseFilename := path, stream := Some path \<rparr>,
              stream_write fs path (msg @ [newline])), None)
          \<and> hour next_day = 0 \<and> minute next_day = 0 \<and> second next_day = 0)"
proof (intro conjI allI impI)
  fix s
  assume "stream h = Some s \<and> time_time clk \<le> rotate_at h"
  then show "emit utcoffset h fs clk (Inr msg) =
        ((h, stream_write fs s (msg @ [newline])), None)"
    by (simp add: emit_def FileHandler_emit_def StreamHandler_emit_def)
next
  fix next_day path
  assume a: "time_time clk > rotate_at h
        \<and> add_one_day ((now_rotate clk)
              \<lparr> hour := 0, minute := 0, second := 0, microsecond := 0 \<rparr>) = Inr next_day
        \<and> path = filename h @ ''.'' @ strftime_ymd (now_open clk)
        \<and> (files fs path \<noteq> None \<or> create_fault fs path = None)
        \<and> open_fault fs path = None"
  let ?h1 = "handler_close (h \<lparr> rotate_at := mktime utcoffset (timetuple next_day) \<rparr>)"
  have p: "log_today ?h1 (now_open clk) = path"
    using a by (simp add: log_today_def handler_close_def)
  from a have c1: "files fs path \<noteq> None \<or> create_fault fs path = None"
    by (elim conjE)
  from a have c2: "open_fault fs path = None"
    by (elim conjE)
  have "handler_open ?h1 fs (now_open clk) =
     ((?h1 \<lparr> baseFilename := path \<rparr>,
       if files fs path \<noteq> None then fs else fs \<lparr> files := (files fs)(path \<mapsto> []) \<rparr>),
      Inr path)"
    by (rule handler_open_ok [of fs ?h1 "now_open clk", unfolded p, OF c1 c2])
  moreover have "stream_write
       (if files fs path \<noteq> None then fs else fs \<lparr> files := (files fs)(path \<mapsto> []) \<rparr>)
       path (msg @ [newline]) = stream_write fs path (msg @ [newline])"
    by (simp add: stream_write_created)
  ultimately show "emit utcoffset h fs clk (Inr msg) =
            ((h \<lparr> rotate_at := mktime utcoffset (timetuple next_day),
                  baseFilename := path, stream := Some path \<rparr>,
              stream_write fs path (msg @ [newline])), None)"
    using a
    by (simp add: emit_def next_rotate_at_def FileHandler_emit_def StreamHandler_emit_def
        handler_close_def)
  from a show "hour next_day = 0" "minute next_day = 0" "second next_day = 0"
    by (auto dest: add_one_day_time)
qed


theorem emit_rotation_witness:
  "stream (example_handler (Some ''app.log.2020-03-14'')) = Some ''app.log.2020-03-14''
   \<and> time_time \<lparr> time_time = 1584201600, now_rotate = example_now 14 23,
                  now_open = example_now 14 23 \<rparr>
        \<le> rotate_at (example_handler (Some ''app.log.2020-03-14''))
   \<and> emit 28800 (example_handler (Some ''app.log.2020-03-14''))
        (example_fs [''app.log.2020-03-14'' \<mapsto> ''old''])
        \<lparr> time_time = 1584201600, now_rotate = example_now 14 23,
          now_open = example_now 14 23 \<rparr> (Inr ''hello'') =
       ((example_handler (Some ''app.log.2020-03-14''),
         example_fs [''app.log.2020-03-14'' \<mapsto> ''old'' @ ''hello'' @ [newline]]), None)
   \<and> time_time \<lparr> time_time = 1584201601, now_rotate = example_now 15 0,
                  now_open = example_now 15 0 \<rparr>
        > rotate_at (example_handler (Some ''app.log.2020-03-14''))
   \<and> emit 28800 (example_handler (Some ''app.log.2020-03-14''))
        (example_fs [''app.log.2020-03-14'' \<mapsto> ''old''])
        \<lparr> time_time = 1584201601, now_rotate = example_now 15 0,
          now_open = example_now 15 0 \<rparr> (Inr ''hello'') =
       ((\<lparr> filename = ''app.log'', rotate_at = 1584288000,
            baseFilename = ''app.log.2020-03-15'', stream = Some ''app.log.2020-03-15'' \<rparr>,
         example_fs [''app.log.2020-03-14'' \<mapsto> ''old'',
                     ''app.log.2020-03-15'' \<mapsto> ''hello'' @ [newline]]), None)"
proof -
  let ?h = "example_handler (Some ''app.log.2020-03-14'')"
  let ?fs = "example_fs [''app.log.2020-03-14'' \<mapsto> ''old'']"
  let ?before = "\<lparr> time_time = 1584201600, now_rotate = example_now 14 23,
                   now_open = example_now 14 23 \<rparr>"
  let ?after = "\<lparr> time_time = 1584201601, now_rotate = example_now 15 0,
                  now_open = example_now 15 0 \<rparr>"
  have s: "stream ?h = Some ''app.log.2020-03-14''"
    by (simp add: example_handler_def)
  have le: "time_time ?before \<le> rotate_at ?h"
    by (simp add: example_handler_def)
  have pre1: "stream ?h = Some ''app.log.2020-03-14'' \<and> time_time ?before \<le> rotate_at ?h"
    using s le by simp
  have a: "emit 28800 ?h ?fs ?before (Inr ''hello'') =
       ((?h, example_fs [''app.log.2020-03-14'' \<mapsto> ''old'' @ ''hello'' @ [newline]]), None)"
    using emit_rotation [of ?h ?before 28800 ?fs "''hello''", THEN conjunct1, rule_format, OF pre1]
    by (simp add: stream_write_def example_fs_def)
  have gt: "time_time ?after > rotate_at ?h"
    by (simp add: example_handler_def)
  have pre2: "time_time ?after > rotate_at ?h
        \<and> add_one_day ((now_rotate ?after)
              \<lparr> hour := 0, minute := 0, second := 0, microsecond := 0 \<rparr>) =
            Inr \<lparr> year = 2020, month = 3, day = 16, hour = 0, minute = 0, second = 0,
                  microsecond = 0 \<rparr>
        \<and> ''app.log.2020-03-15'' = filename ?h @ ''.'' @ strftime_ymd (now_open ?after)
        \<and> (files ?fs ''app.log.2020-03-15'' \<noteq> None \<or> create_fault ?fs ''app.log.2020-03-15'' = None)
        \<and> open_fault ?fs ''app.log.2020-03-15'' = None"
    by (simp add: calendar_defs example_now_def example_handler_def example_fs_def)
  have b: "emit 28800 ?h ?fs ?after (Inr ''hello'') =
       ((\<lparr> filename = ''app.log'', rotate_at = 1584288000,
            baseFilename = ''app.log.2020-03-15'', stream = Some ''app.log.2020-03-15'' \<rparr>,
         example_fs [''app.log.2020-03-14'' \<mapsto> ''old'',
                     ''app.log.2020-03-15'' \<mapsto> ''hello'' @ [newline]]), None)"
    using emit_rotation [of ?h ?after 28800 ?fs "''hello''", THEN conjunct2, rule_format,
        OF pre2, THEN conjunct1]
    by (simp add: stream_write_def example_fs_def example_handler_def calendar_defs upt_rec)
  from s le a gt b show ?thesis by simp
qed

text \<open>
  Claim C6, as the code has it. When the message of the event is a mapping, \<open>format\<close>
  takes it as the message payload: the \<^verbatim>\<open>message\<close> attribute is set to
  \<^verbatim>\<open>None\<close>, every key of the mapping other than \<^verbatim>\<open>exc_info\<close> is in the payload
  with its value and reaches the output (unless an extra attribute of that name is
  merged over it), and the \<^verbatim>\<open>message\<close> entry of the output is the mapping's own
  when it has one, and otherwise null when the pattern asks for the message and absent
  when it does not. The constructor refuses the pattern
  \<^verbatim>\<open>(asctime) (levelname) (message)\<close> of the scenario, which has no placeholder
  the framework knows, unless the validation is switched off. With the pattern
  \<^verbatim>\<open>%(asctime)s %(levelname)s %(message)s\<close>, or with the pattern of the scenario and
  no validation, the output for the mapping of the scenario holds the time, the level,
  a null message, and the user and the action.
\<close>

theorem mapping_message_is_payload:
  \<open>(\<forall>fw kw self r0 r md d.
      JsonFormatter_init fw kw = Inr self \<and> wf_record r0
      \<and> getattr r0 ''msg'' = Inr (PyDict d)
      \<and> format_state fw self r0 = ((r, md), None) \<longrightarrow>
        getattr r ''message'' = Inr PyNone
        \<and> (\<forall>k. k \<noteq> KStr ''exc_info'' \<longrightarrow> map_of md k = map_of d k)
        \<and> (\<forall>k v. k \<noteq> KStr ''exc_info'' \<and> map_of d k = Some v \<longrightarrow>
              map_of (build_log_record self r md) k =
                (if k \<in> fst ` set r0 \<and> k \<notin> KStr ` set (required_fields self)
                    \<and> k \<notin> KStr ` set RESERVED_ATTRS \<and> \<not> key_startswith k ''_''
                 then map_of r0 k else Some v))
        \<and> map_of (build_log_record self r md) (KStr ''message'') =
              (case map_of d (KStr ''message'') of
                 Some v \<Rightarrow> Some v
               | None \<Rightarrow> if ''message'' \<in> set (required_fields self)
                         then Some PyNone else None))
   \<and> JsonFormatter_init example_framework
        (example_kwargs ''%(asctime)s %(levelname)s %(message)s'') =
       Inr (example_formatter ''%(asctime)s %(levelname)s %(message)s'')
   \<and> snd (format example_framework
         (example_formatter ''%(asctime)s %(levelname)s %(message)s'')
         (example_record (PyDict [(KStr ''user'', PyStr ''alice''),
                                  (KStr ''action'', PyStr ''login'')]) PyNone PyNone [])) =
       Inr ''{"asctime": "2020-03-14 12:00:00,000", "levelname": "INFO", "message": null, "user": "alice", "action": "login"}''
   \<and> JsonFormatter_init example_framework
        ((example_kwargs ''(asctime) (levelname) (message)'') \<lparr> kw_validate := Some False \<rparr>) =
       Inr (example_formatter ''(asctime) (levelname) (message)'')
   \<and> snd (format example_framework (example_formatter ''(asctime) (levelname) (message)'')
         (example_record (PyDict [(KStr ''user'', PyStr ''alice''),
                                  (KStr ''action'', PyStr ''login'')]) PyNone PyNone [])) =
       Inr ''{"asctime": "2020-03-14 12:00:00,000", "levelname": "INFO", "message": null, "user": "alice", "action": "login"}''\<close>
proof (intro conjI allI impI)
  fix fw kw self r0 r md d
  assume a: "JsonFormatter_init fw kw = Inr self \<and> wf_record r0
      \<and> getattr r0 ''msg'' = Inr (PyDict d)
      \<and> format_state fw self r0 = ((r, md), None)"
  then have init: "JsonFormatter_init fw kw = Inr self" and wf: "wf_record r0"
    and msg: "getattr r0 ''msg'' = Inr (PyDict d)"
    and st: "format_state fw self r0 = ((r, md), None)"
    by simp_all
  show m: "getattr r ''message'' = Inr PyNone"
    by (rule format_state_dict_payload(1) [OF msg st])
  have pay: "k \<noteq> KStr ''exc_info'' \<Longrightarrow> map_of md k = map_of d k" for k
    by (rule format_state_dict_payload(2) [OF msg st])
  have dist: "distinct (map fst md)"
    using format_state_frame(3) [OF st wf] by simp
  have look: "map_of (build_log_record self r md) k =
           (if k \<in> fst ` set r0 \<and> k \<notin> KStr ` set (required_fields self)
               \<and> k \<notin> KStr ` set RESERVED_ATTRS \<and> \<not> key_startswith k ''_''
            then map_of r0 k
            else map_of (required_and_payload self [] r md) k)" for k
    by (rule build_log_record_lookup [OF init wf st])
  {
    fix k
    assume "k \<noteq> KStr ''exc_info''"
    then show "map_of md k = map_of d k" by (rule pay)
  }
  {
    fix k v
    assume "k \<noteq> KStr ''exc_info'' \<and> map_of d k = Some v"
    then have "map_of md k = Some v" by (simp add: pay)
    then have "map_of (required_and_payload self [] r md) k = Some v"
      using dist by (simp add: map_of_required_and_payload)
    then show "map_of (build_log_record self r md) k =
                (if k \<in> fst ` set r0 \<and> k \<notin> KStr ` set (required_fields self)
                    \<and> k \<notin> KStr ` set RESERVED_ATTRS \<and> \<not> key_startswith k ''_''
                 then map_of r0 k else Some v)"
      by (simp add: look)
  }
  have "dict_get r (KStr ''message'') = PyNone"
    using m by (simp add: getattr_def dict_get_def split: option.splits)
  then show "map_of (build_log_record self r md) (KStr ''message'') =
              (case map_of d (KStr ''message'') of
                 Some v \<Rightarrow> Some v
               | None \<Rightarrow> if ''message'' \<in> set (required_fields self)
                         then Some PyNone else None)"
    using dist pay [of "KStr ''message''"]
    by (simp add: look RESERVED_ATTRS_def map_of_required_and_payload image_iff
        split: option.splits)
next
  show "JsonFormatter_init example_framework
        (example_kwargs ''%(asctime)s %(levelname)s %(message)s'') =
       Inr (example_formatter ''%(asctime)s %(levelname)s %(message)s'')"
    by (simp add: init_example validation_defs)
next
  show "snd (format example_framework
         (example_formatter ''%(asctime)s %(levelname)s %(message)s'')
         (example_record (PyDict [(KStr ''user'', PyStr ''alice''),
                                  (KStr ''action'', PyStr ''login'')]) PyNone PyNone [])) =
       Inr ''{\"asctime\": \"2020-03-14 12:00:00,000\", \"levelname\": \"INFO\", \"message\": null, \"user\": \"alice\", \"action\": \"login\"}''"
    by (simp add: format_def example_defs format_defs build_defs json_defs)
next
  show "JsonFormatter_init example_framework
        ((example_kwargs ''(asctime) (levelname) (message)'') \<lparr> kw_validate := Some False \<rparr>) =
       Inr (example_formatter ''(asctime) (levelname) (message)'')"
    by (simp add: init_example_unvalidated)
next
  show "snd (format example_framework (example_formatter ''(asctime) (levelname) (message)'')
         (example_record (PyDict [(KStr ''user'', PyStr ''alice''),
                                  (KStr ''action'', PyStr ''login'')]) PyNone PyNone [])) =
       Inr ''{\"asctime\": \"2020-03-14 12:00:00,000\", \"levelname\": \"INFO\", \"message\": null, \"user\": \"alice\", \"action\": \"login\"}''"
    by (simp add: format_def example_defs format_defs build_defs json_defs)
qed

theorem scenario_pattern_refused:
  "JsonFormatter_init example_framework (example_kwargs ''(asctime) (levelname) (message)'') =
     Inl ValueError"
  by (simp add: JsonFormatter_init_def Formatter_init_def example_kwargs_def validation_defs)

theorem mapping_message_is_payload_witness:
  "JsonFormatter_init example_framework (example_kwargs ''%(asctime)s %(levelname)s %(message)s'') =
     Inr (example_formatter ''%(asctime)s %(levelname)s %(message)s'')
   \<and> wf_record (example_record (PyDict [(KStr ''user'', PyStr ''alice''),
                                        (KStr ''action'', PyStr ''login'')]) PyNone PyNone [])
   \<and> getattr (example_record (PyDict [(KStr ''user'', PyStr ''alice''),
                                      (KStr ''action'', PyStr ''login'')]) PyNone PyNone [])
        ''msg'' = Inr (PyDict [(KStr ''user'', PyStr ''alice''),
                               (KStr ''action'', PyStr ''login'')])
   \<and> format_state example_framework (example_formatter ''%(asctime)s %(levelname)s %(message)s'')
        (example_record (PyDict [(KStr ''user'', PyStr ''alice''),
                                 (KStr ''action'', PyStr ''login'')]) PyNone PyNone []) =
       ((example_record (PyDict [(KStr ''user'', PyStr ''alice''),
                                 (KStr ''action'', PyStr ''login'')]) PyNone PyNone
           [(KStr ''message'', PyNone), (KStr ''asctime'', PyStr ''2020-03-14 12:00:00,000'')],
         [(KStr ''user'', PyStr ''alice''), (KStr ''action'', PyStr ''login'')]), None)
   \<and> map_of (build_log_record (example_formatter ''%(asctime)s %(levelname)s %(message)s'')
        (example_record (PyDict [(KStr ''user'', PyStr ''alice''),
                                 (KStr ''action'', PyStr ''login'')]) PyNone PyNone
           [(KStr ''message'', PyNone), (KStr ''asctime'', PyStr ''2020-03-14 12:00:00,000'')])
        [(KStr ''user'', PyStr ''alice''), (KStr ''action'', PyStr ''login'')])
        (KStr ''user'') = Some (PyStr ''alice'')
   \<and> map_of (build_log_record (example_formatter ''%(asctime)s %(levelname)s %(message)s'')
        (example_record (PyDict [(KStr ''user'', PyStr ''alice''),
                                 (KStr ''action'', PyStr ''login'')]) PyNone PyNone
           [(KStr ''message'', PyNone), (KStr ''asctime'', PyStr ''2020-03-14 12:00:00,000'')])
        [(KStr ''user'', PyStr ''alice''), (KStr ''action'', PyStr ''login'')])
        (KStr ''message'') = Some PyNone"
proof -
  let ?self = "example_formatter ''%(asctime)s %(levelname)s %(message)s''"
  let ?pay = "[(KStr ''user'', PyStr ''alice''), (KStr ''action'', PyStr ''login'')]"
  let ?ev = "example_record (PyDict ?pay) PyNone PyNone []"
  let ?fin = "example_record (PyDict ?pay) PyNone PyNone
           [(KStr ''message'', PyNone), (KStr ''asctime'', PyStr ''2020-03-14 12:00:00,000'')]"
  have init: "JsonFormatter_init example_framework
      (example_kwargs ''%(asctime)s %(levelname)s %(message)s'') = Inr ?self"
    by (simp add: init_example validation_defs)
  have wf: "wf_record ?ev"
    by (simp add: wf_record_def example_defs getattr_def)
  have msg: "getattr ?ev ''msg'' = Inr (PyDict ?pay)"
    by (simp add: example_defs getattr_def)
  have st: "format_state example_framework ?self ?ev = ((?fin, ?pay), None)"
    by (simp add: example_defs format_defs)
  have all: "JsonFormatter_init example_framework
      (example_kwargs ''%(asctime)s %(levelname)s %(message)s'') = Inr ?self \<and> wf_record ?ev
      \<and> getattr ?ev ''msg'' = Inr (PyDict ?pay)
      \<and> format_state example_framework ?self ?ev = ((?fin, ?pay), None)"
    using init wf msg st by simp
  note gen = mapping_message_is_payload [THEN conjunct1, rule_format, OF all]
  have a: "map_of (build_log_record ?self ?fin ?pay) (KStr ''user'') = Some (PyStr ''alice'')"
  proof -
    have inst: "KStr ''user'' \<noteq> KStr ''exc_info''
        \<and> map_of ?pay (KStr ''user'') = Some (PyStr ''alice'')"
      by simp
    have no: "KStr ''user'' \<notin> fst ` set ?ev"
      by (simp add: example_record_def)
    show ?thesis
      using gen [THEN conjunct2, THEN conjunct2, THEN conjunct1, rule_format, OF inst] no
      by (simp only: if_False simp_thms)
  qed
  have b: "map_of (build_log_record ?self ?fin ?pay) (KStr ''message'') = Some PyNone"
    using gen [THEN conjunct2, THEN conjunct2, THEN conjunct2]
    by (simp add: example_defs newline_def)
  from init wf msg st a b show ?thesis by simp
qed

lemma match_group_Cons2:
  "match_group (c # d # ds) =
     (if c = newline then None
      else if d = CHR '')'' then Some [c]
      else map_option ((#) c) (match_group (d # ds)))"
  by simp

lemma match_group_single: "match_group [c] = None"
  by simp

lemma match_group_none: "CHR '')'' \<notin> set cs \<Longrightarrow> match_group cs = None"
proof (induction cs)
  case Nil
  then show ?case by simp
next
  case (Cons c cs)
  show ?case
  proof (cases cs)
    case Nil
    then show ?thesis by (simp only: match_group_single)
  next
    case (Cons d ds)
    with Cons.prems Cons.IH have "match_group (d # ds) = None" and "d \<noteq> CHR '')''"
      by auto
    then show ?thesis
      unfolding Cons match_group_Cons2 by simp
  qed
qed

lemma match_group_takeWhile:
  "CHR '')'' \<in> set cs \<Longrightarrow> takeWhile (\<lambda>x. x \<noteq> CHR '')'') cs \<noteq> [] \<Longrightarrow>
   newline \<notin> set (takeWhile (\<lambda>x. x \<noteq> CHR '')'') cs) \<Longrightarrow>
   match_group cs = Some (takeWhile (\<lambda>x. x \<noteq> CHR '')'') cs)"
proof (induction cs)
  case Nil
  then show ?case by simp
next
  case (Cons c cs)
  from Cons.prems(2) have c1: "c \<noteq> CHR '')''"
    by (auto split: if_splits)
  with Cons.prems have c2: "c \<noteq> newline" and close: "CHR '')'' \<in> set cs"
    and nl: "newline \<notin> set (takeWhile (\<lambda>x. x \<noteq> CHR '')'') cs)"
    by auto
  from close obtain d ds where cs: "cs = d # ds"
    by (cases cs) auto
  show ?case
  proof (cases "d = CHR '')''")
    case True
    with c1 c2 show ?thesis
      unfolding cs match_group_Cons2 by simp
  next
    case False
    then have "takeWhile (\<lambda>x. x \<noteq> CHR '')'') cs \<noteq> []"
      by (simp add: cs)
    with Cons.IH close nl
    have "match_group (d # ds) = Some (takeWhile (\<lambda>x. x \<noteq> CHR '')'') (d # ds))"
      by (simp add: cs)
    with c1 c2 False show ?thesis
      unfolding cs match_group_Cons2 by simp
  qed
qed

lemma match_group_result:
  "match_group cs = Some g \<Longrightarrow> g \<noteq> [] \<and> newline \<notin> set g"
proof (induction cs arbitrary: g)
  case Nil
  then show ?case by simp
next
  case (Cons c cs)
  show ?case
  proof (cases cs)
    case Nil
    with Cons.prems show ?thesis by (simp only: match_group_single) simp
  next
    case inner: (Cons d ds)
    show ?thesis
    proof (cases "c = newline \<or> d = CHR '')''")
      case True
      with Cons.prems show ?thesis
        unfolding inner match_group_Cons2 by (auto split: if_splits)
    next
      case False
      with Cons.prems obtain g' where g': "match_group (d # ds) = Some g'" and g: "g = c # g'"
        unfolding inner match_group_Cons2 by (auto split: if_splits)
      from Cons.IH [of g'] g' have "newline \<notin> set g'"
        by (simp add: inner)
      with False g show ?thesis by auto
    qed
  qed
qed

lemma findall_groups: "g \<in> set (findall s) \<Longrightarrow> g \<noteq> [] \<and> newline \<notin> set g"
proof (induction s rule: findall.induct)
  case 1
  then show ?case by simp
next
  case (2 c cs)
  show ?case
  proof (cases "c = CHR ''(''")
    case False
    with "2.prems" "2.IH" show ?thesis by simp
  next
    case True
    show ?thesis
    proof (cases "match_group cs")
      case None
      with True "2.prems" "2.IH" show ?thesis by simp
    next
      case (Some g')
      with True "2.prems" have "g = g' \<or> g \<in> set (findall (drop (Suc (length g')) cs))"
        by simp
      then show ?thesis
      proof
        assume "g = g'"
        with Some show ?thesis by (simp add: match_group_result)
      next
        assume "g \<in> set (findall (drop (Suc (length g')) cs))"
        with True Some "2.IH" show ?thesis by simp
      qed
    qed
  qed
qed

lemma findall_enclosed_fields:
  "(\<And>g. g \<in> set (enclosed_fields s) \<Longrightarrow> g \<noteq> [] \<and> newline \<notin> set g) \<Longrightarrow>
   findall s = enclosed_fields s"
proof (induction s rule: findall.induct)
  case 1
  then show ?case by simp
next
  case (2 c cs)
  show ?case
  proof (cases "c = CHR ''(''")
    case False
    with "2.prems" have "\<And>g. g \<in> set (enclosed_fields cs) \<Longrightarrow> g \<noteq> [] \<and> newline \<notin> set g"
      by simp
    with False "2.IH" show ?thesis by simp
  next
    case True
    show ?thesis
    proof (cases "CHR '')'' \<in> set cs")
      case False
      then have mg: "match_group cs = None" by (rule match_group_none)
      from True False "2.prems"
      have "\<And>g. g \<in> set (enclosed_fields cs) \<Longrightarrow> g \<noteq> [] \<and> newline \<notin> set g"
        by simp
      with True False mg "2.IH" show ?thesis by simp
    next
      case close: True
      let ?g = "takeWhile (\<lambda>x. x \<noteq> CHR '')'') cs"
      have ef: "enclosed_fields (c # cs) = ?g # enclosed_fields (drop (Suc (length ?g)) cs)"
        using True close by simp
      have "?g \<in> set (enclosed_fields (c # cs))"
        unfolding ef by simp
      then have "?g \<noteq> [] \<and> newline \<notin> set ?g"
        by (rule "2.prems")
      with close have mg: "match_group cs = Some ?g"
        by (simp add: match_group_takeWhile)
      have "\<And>g. g \<in> set (enclosed_fields (drop (Suc (length ?g)) cs)) \<Longrightarrow>
              g \<noteq> [] \<and> newline \<notin> set g"
        using "2.prems" unfolding ef by simp
      with True mg "2.IH" have "findall (drop (Suc (length ?g)) cs) =
          enclosed_fields (drop (Suc (length ?g)) cs)"
        by simp
      with True mg show ?thesis
        unfolding ef by simp
    qed
  qed
qed

lemma findall_no_fields: "enclosed_fields s = [] \<Longrightarrow> findall s = []"
proof (induction s rule: findall.induct)
  case 1
  then show ?case by simp
next
  case (2 c cs)
  show ?case
  proof (cases "c = CHR ''('' \<and> CHR '')'' \<in> set cs")
    case True
    with "2.prems" show ?thesis by simp
  next
    case False
    with "2.prems" have e: "enclosed_fields cs = []" by simp
    show ?thesis
    proof (cases "c = CHR ''(''")
      case True
      with False have "match_group cs = None" by (simp add: match_group_none)
      with True e "2.IH" show ?thesis by simp
    next
      case nop: False
      with e "2.IH" show ?thesis by simp
    qed
  qed
qed

lemma enclosed_fields_pair:
  "CHR '')'' \<in> set ys \<Longrightarrow> enclosed_fields (xs @ CHR ''('' # ys) \<noteq> []"
  by (induction xs) auto

lemma validation_match_pair:
  "validation_match s \<Longrightarrow> \<exists>xs ys. s = xs @ CHR ''('' # ys \<and> CHR '')'' \<in> set ys"
proof -
  assume v: "validation_match s"
  then obtain p rest where s: "s = p # CHR ''('' # rest"
    by (auto simp: validation_match_def split: list.splits)
  with v obtain tail where "dropWhile is_word_char rest = CHR '')'' # tail"
    by (auto simp: validation_match_def split: list.splits)
  then have "CHR '')'' \<in> set (dropWhile is_word_char rest)"
    by simp
  then have "CHR '')'' \<in> set rest"
    by (rule set_dropWhileD)
  with s have "s = [p] @ CHR ''('' # rest \<and> CHR '')'' \<in> set rest"
    by simp
  then show ?thesis by blast
qed

lemma validation_search_pair:
  "validation_search s \<Longrightarrow> \<exists>xs ys. s = xs @ CHR ''('' # ys \<and> CHR '')'' \<in> set ys"
proof (induction s)
  case Nil
  then show ?case by simp
next
  case (Cons c cs)
  from Cons.prems have "validation_match (c # cs) \<or> validation_search cs"
    by simp
  then show ?case
  proof
    assume "validation_match (c # cs)"
    then show ?thesis by (rule validation_match_pair)
  next
    assume "validation_search cs"
    with Cons.IH obtain xs ys where "cs = xs @ CHR ''('' # ys \<and> CHR '')'' \<in> set ys"
      by blast
    then have "c # cs = (c # xs) @ CHR ''('' # ys \<and> CHR '')'' \<in> set ys"
      by simp
    then show ?thesis by blast
  qed
qed

lemma validation_search_fields: "validation_search s \<Longrightarrow> enclosed_fields s \<noteq> []"
  using validation_search_pair [of s] enclosed_fields_pair by blast

lemma init_validated:
  assumes "JsonFormatter_init fw kw = Inr self"
  shows "kw_validate kw = Some False \<or> validation_search (fmt self)"
  using assms
  by (auto simp: JsonFormatter_init_def Formatter_init_def Let_def
      split: sum.splits option.splits if_splits)

text \<open>
  Claim C9, as the code has it. \<open>parse\<close> returns the field names enclosed in
  parentheses, in the order of the pattern, for the patterns in which no text enclosed
  in parentheses is empty or holds a line break, and for no other pattern. For a
  pattern without parenthesized fields \<open>parse\<close> gives the empty list and no error, but
  the constructor refuses such a pattern: a formatter is built from it only when the
  validation is switched off; it then has no required fields, and the record it builds
  is the message payload with the extras merged in.
\<close>

theorem parse_enclosed_fields:
  "(parse self = enclosed_fields (fmt self) \<longleftrightarrow>
      (\<forall>g \<in> set (enclosed_fields (fmt self)). g \<noteq> [] \<and> newline \<notin> set g))
   \<and> (enclosed_fields (fmt self) = [] \<longrightarrow> parse self = [])
   \<and> (\<forall>fw kw. JsonFormatter_init fw kw = Inr self \<and> enclosed_fields (fmt self) = [] \<longrightarrow>
         kw_validate kw = Some False
         \<and> required_fields self = []
         \<and> (\<forall>r md. build_log_record self r md =
                merge_record_extra r (dict_update [] md) (skip_fields self)))
   \<and> (\<forall>fw kw p. kw_fmt kw = Some p \<and> p \<noteq> [] \<and> enclosed_fields p = []
         \<and> kw_json_serializer kw = None \<and> kw_validate kw \<noteq> Some False \<longrightarrow>
         JsonFormatter_init fw kw = Inl ValueError)"
proof (intro conjI allI impI)
  show "parse self = enclosed_fields (fmt self) \<longleftrightarrow>
      (\<forall>g \<in> set (enclosed_fields (fmt self)). g \<noteq> [] \<and> newline \<notin> set g)"
  proof
    assume "parse self = enclosed_fields (fmt self)"
    then have "enclosed_fields (fmt self) = findall (fmt self)"
      by (simp add: parse_def)
    then show "\<forall>g \<in> set (enclosed_fields (fmt self)). g \<noteq> [] \<and> newline \<notin> set g"
      using findall_groups by simp
  next
    assume "\<forall>g \<in> set (enclosed_fields (fmt self)). g \<noteq> [] \<and> newline \<notin> set g"
    then show "parse self = enclosed_fields (fmt self)"
      by (simp add: parse_def findall_enclosed_fields)
  qed
next
  assume "enclosed_fields (fmt self) = []"
  then show "parse self = []"
    by (simp add: parse_def findall_no_fields)
next
  fix fw kw
  assume a: "JsonFormatter_init fw kw = Inr self \<and> enclosed_fields (fmt self) = []"
  then show "kw_validate kw = Some False"
    using init_validated [of fw kw self] validation_search_fields [of "fmt self"] by auto
  from a show req: "required_fields self = []"
    using init_fields(1) [of fw kw self] by (simp add: findall_no_fields)
  fix r md
  show "build_log_record self r md =
          merge_record_extra r (dict_update [] md) (skip_fields self)"
    by (simp add: build_log_record_def process_log_record_def add_fields_def
        required_and_payload_def req)
next
  fix fw and kw :: formatter_kwargs and p
  assume a: "kw_fmt kw = Some p \<and> p \<noteq> [] \<and> enclosed_fields p = []
         \<and> kw_json_serializer kw = None \<and> kw_validate kw \<noteq> Some False"
  then have "\<not> validation_search p"
    using validation_search_fields [of p] by auto
  with a show "JsonFormatter_init fw kw = Inl ValueError"
    by (simp add: JsonFormatter_init_def Formatter_init_def)
qed

theorem parse_differs_and_plain_pattern_refused:
  "JsonFormatter_init example_framework (example_kwargs ''plain text'') = Inl ValueError
   \<and> JsonFormatter_init example_framework (example_kwargs ''() %(name)s'') =
       Inr (example_formatter ''() %(name)s'')
   \<and> parse (example_formatter ''() %(name)s'') = ['') %(name'']
   \<and> enclosed_fields ''() %(name)s'' = ['''', ''name'']
   \<and> JsonFormatter_init example_framework
        (example_kwargs (''(a'' @ [newline] @ ''b) %(message)s'')) =
       Inr (example_formatter (''(a'' @ [newline] @ ''b) %(message)s''))
   \<and> parse (example_formatter (''(a'' @ [newline] @ ''b) %(message)s'')) = [''message'']
   \<and> enclosed_fields (''(a'' @ [newline] @ ''b) %(message)s'') =
       [''a'' @ [newline] @ ''b'', ''message'']"
proof (intro conjI)
  show "JsonFormatter_init example_framework (example_kwargs ''plain text'') = Inl ValueError"
    by (simp add: JsonFormatter_init_def Formatter_init_def example_kwargs_def validation_defs)
  show "JsonFormatter_init example_framework (example_kwargs ''() %(name)s'') =
       Inr (example_formatter ''() %(name)s'')"
    by (simp add: init_example validation_defs)
  show "parse (example_formatter ''() %(name)s'') = ['') %(name'']"
    by (simp add: parse_def example_formatter_def newline_def)
  show "enclosed_fields ''() %(name)s'' = ['''', ''name'']"
    by simp
  show "JsonFormatter_init example_framework
        (example_kwargs (''(a'' @ [newline] @ ''b) %(message)s'')) =
       Inr (example_formatter (''(a'' @ [newline] @ ''b) %(message)s''))"
    by (simp add: init_example validation_defs newline_def)
  show "parse (example_formatter (''(a'' @ [newline] @ ''b) %(message)s'')) = [''message'']"
    by (simp add: parse_def example_formatter_def newline_def)
  show "enclosed_fields (''(a'' @ [newline] @ ''b) %(message)s'') =
       [''a'' @ [newline] @ ''b'', ''message'']"
    by (simp add: newline_def)
qed

theorem parse_enclosed_fields_witness:
  "enclosed_fields (fmt (example_formatter ''%(asctime)s %(levelname)s [%(name)s] %(message)s'')) =
     [''asctime'', ''levelname'', ''name'', ''message'']
   \<and> parse (example_formatter ''%(asctime)s %(levelname)s [%(name)s] %(message)s'') =
       [''asctime'', ''levelname'', ''name'', ''message'']
   \<and> JsonFormatter_init example_framework
        ((example_kwargs ''plain text'') \<lparr> kw_validate := Some False \<rparr>) =
       Inr (example_formatter ''plain text'')
   \<and> enclosed_fields (fmt (example_formatter ''plain text'')) = []
   \<and> parse (example_formatter ''plain text'') = []
   \<and> required_fields (example_formatter ''plain text'') = []
   \<and> build_log_record (example_formatter ''plain text'')
        (example_record (PyStr ''hello'') PyNone PyNone [(KStr ''user'', PyStr ''bob'')])
        [(KStr ''action'', PyStr ''login'')] =
       [(KStr ''action'', PyStr ''login''), (KStr ''user'', PyStr ''bob'')]
   \<and> kw_fmt (example_kwargs ''plain text'') = Some ''plain text''
   \<and> kw_json_serializer (example_kwargs ''plain text'') = None
   \<and> kw_validate (example_kwargs ''plain text'') \<noteq> Some False
   \<and> JsonFormatter_init example_framework (example_kwargs ''plain text'') = Inl ValueError"
proof -
  let ?p = "''%(asctime)s %(levelname)s [%(name)s] %(message)s''"
  have ef: "enclosed_fields (fmt (example_formatter ?p)) =
      [''asctime'', ''levelname'', ''name'', ''message'']"
    by (simp add: example_formatter_def)
  have ok: "\<forall>g \<in> set (enclosed_fields (fmt (example_formatter ?p))). g \<noteq> [] \<and> newline \<notin> set g"
    unfolding ef by (simp add: newline_def)
  have a: "parse (example_formatter ?p) = [''asctime'', ''levelname'', ''name'', ''message'']"
    using parse_enclosed_fields [of "example_formatter ?p", THEN conjunct1, THEN iffD2, OF ok]
    by (simp only: ef)
  let ?plain = "example_formatter ''plain text''"
  let ?kw = "(example_kwargs ''plain text'') \<lparr> kw_validate := Some False \<rparr>"
  have init: "JsonFormatter_init example_framework ?kw = Inr ?plain"
    by (simp add: init_example_unvalidated)
  have none: "enclosed_fields (fmt ?plain) = []"
    by (simp add: example_formatter_def)
  have c: "parse ?plain = []"
    using parse_enclosed_fields [of ?plain, THEN conjunct2, THEN conjunct1] none
    by (rule mp)
  have both: "JsonFormatter_init example_framework ?kw = Inr ?plain
      \<and> enclosed_fields (fmt ?plain) = []"
    using init none by simp
  note built = parse_enclosed_fields [of ?plain, THEN conjunct2, THEN conjunct2, THEN conjunct1,
      rule_format, OF both]
  have req: "required_fields ?plain = []"
    by (rule built [THEN conjunct2, THEN conjunct1])
  have d: "build_log_record ?plain
        (example_record (PyStr ''hello'') PyNone PyNone [(KStr ''user'', PyStr ''bob'')])
        [(KStr ''action'', PyStr ''login'')] =
       [(KStr ''action'', PyStr ''login''), (KStr ''user'', PyStr ''bob'')]"
    unfolding built [THEN conjunct2, THEN conjunct2, rule_format]
    by (simp add: example_defs build_defs)
  have pre: "kw_fmt (example_kwargs ''plain text'') = Some ''plain text'' \<and> ''plain text'' \<noteq> []
      \<and> enclosed_fields ''plain text'' = []
      \<and> kw_json_serializer (example_kwargs ''plain text'') = None
      \<and> kw_validate (example_kwargs ''plain text'') \<noteq> Some False"
    by (simp add: example_kwargs_def)
  have e: "JsonFormatter_init example_framework (example_kwargs ''plain text'') = Inl ValueError"
    by (rule parse_enclosed_fields [of ?plain, THEN conjunct2, THEN conjunct2, THEN conjunct2,
        rule_format, OF pre])
  from ef a init none c req d pre e show ?thesis by simp
qed

end
